theory Spec2Isabelle
  imports Main "HOL-Library.Sublist"
begin

section \<open>JavaScript values and the string operations the handler uses\<close>

text \<open>
  The text-extractor handler (lambda/text-extractor/index.js) reads a queue message,
  parses its body, and drives four external services. Strings are HOL strings; the
  values that come out of \<^verbatim>\<open>JSON.parse\<close> are the datatype below. A number is kept as the
  text that JavaScript's number-to-string conversion gives for it, since the handler
  only ever interpolates it into a template string. An object is the list of its own
  properties.
\<close>

datatype js_value =
    JUndefined
  | JNull
  | JBoolean bool
  | JNumber string
  | JString string
  | JArray "js_value list"
  | JObject "(string \<times> js_value) list"

datatype error = SyntaxError | TypeError | ServiceError string

text \<open>
  \<^verbatim>\<open>Array.prototype.join\<close>: the result starts empty; the separator is added before every
  element but the first.
\<close>

fun join_loop :: "string \<Rightarrow> string list \<Rightarrow> nat \<Rightarrow> string \<Rightarrow> string" where
  "join_loop sep [] k R = R"
| "join_loop sep (x # xs) k R = join_loop sep xs (Suc k) ((if 0 < k then R @ sep else R) @ x)"

definition join :: "string \<Rightarrow> string list \<Rightarrow> string" where
  "join sep xs = join_loop sep xs 0 []"

text \<open>
  String conversion of a value inside a template literal. An object that came out of
  the parser has only data properties: if one of them is named toString, the inherited
  method is hidden by a value that cannot be called, the inherited valueOf returns the
  object itself (an own valueOf cannot be called either), and the conversion throws a
  TypeError. Otherwise the inherited method gives the text below. An array is converted
  by joining its converted elements with a comma, undefined and null elements being
  rendered as the empty string; an error in an element is an error of the array.
\<close>

fun ToString :: "js_value \<Rightarrow> error + string"
  and ToString_elements :: "js_value list \<Rightarrow> error + string list" where
  "ToString JUndefined = Inr ''undefined''"
| "ToString JNull = Inr ''null''"
| "ToString (JBoolean b) = Inr (if b then ''true'' else ''false'')"
| "ToString (JNumber s) = Inr s"
| "ToString (JString s) = Inr s"
| "ToString (JArray xs) =
     (case ToString_elements xs of
        Inl e \<Rightarrow> Inl e
      | Inr ss \<Rightarrow> Inr (join '','' ss))"
| "ToString (JObject kvs) =
     (if ''toString'' \<in> set (map fst kvs) then Inl TypeError else Inr ''[object Object]'')"
| "ToString_elements [] = Inr []"
| "ToString_elements (x # xs) =
     (case (if x = JUndefined \<or> x = JNull then Inr [] else ToString x) of
        Inl e \<Rightarrow> Inl e
      | Inr s \<Rightarrow>
          (case ToString_elements xs of
             Inl e \<Rightarrow> Inl e
           | Inr ss \<Rightarrow> Inr (s # ss)))"

text \<open>
  \<^verbatim>\<open>const { bucket, key } = s3Object\<close>: destructuring undefined or null throws a
  TypeError; on an object a missing property is undefined; on every other value the
  two properties are undefined.
\<close>

fun get_property :: "js_value \<Rightarrow> string \<Rightarrow> error + js_value" where
  "get_property JUndefined name = Inl TypeError"
| "get_property JNull name = Inl TypeError"
| "get_property (JObject kvs) name =
     Inr (case map_of kvs name of None \<Rightarrow> JUndefined | Some v \<Rightarrow> v)"
| "get_property v name = Inr JUndefined"

definition destructure_bucket_key :: "js_value \<Rightarrow> error + (js_value \<times> js_value)" where
  "destructure_bucket_key s3Object =
     (case get_property s3Object ''bucket'' of
        Inl e \<Rightarrow> Inl e
      | Inr bucket \<Rightarrow>
          (case get_property s3Object ''key'' of
             Inl e \<Rightarrow> Inl e
           | Inr key \<Rightarrow> Inr (bucket, key)))"

text \<open>
  \<^verbatim>\<open>toLowerCase\<close>. On a string of ASCII characters it maps the letters A to Z to a to z
  and leaves every other character as it is. On any other string the result is the
  engine's Unicode lower-casing, which is taken as a parameter.
\<close>

definition is_ascii :: "char \<Rightarrow> bool" where
  "is_ascii c = (\<not> digit7 c)"

definition ascii_toLowerCase :: "char \<Rightarrow> char" where
  "ascii_toLowerCase c =
     (case map_of (zip ''ABCDEFGHIJKLMNOPQRSTUVWXYZ'' ''abcdefghijklmnopqrstuvwxyz'') c of
        None \<Rightarrow> c
      | Some l \<Rightarrow> l)"

definition toLowerCase :: "(string \<Rightarrow> string) \<Rightarrow> string \<Rightarrow> string" where
  "toLowerCase unicode s = (if list_all is_ascii s then map ascii_toLowerCase s else unicode s)"

text \<open>
  \<^verbatim>\<open>String.prototype.includes\<close>: is the search string found at some position of the
  receiver? The empty search string is found in every string.
\<close>

fun str_includes :: "string \<Rightarrow> string \<Rightarrow> bool" where
  "str_includes [] t = (t = [])"
| "str_includes (c # s) t = (prefix t (c # s) \<or> str_includes s t)"

text \<open>\<^verbatim>\<open>String.prototype.split\<close> with a one-character separator.\<close>

fun split :: "char \<Rightarrow> string \<Rightarrow> string list" where
  "split sep [] = [[]]"
| "split sep (c # cs) =
     (if c = sep then [] # split sep cs
      else (case split sep cs of
              [] \<Rightarrow> [[c]]
            | p # ps \<Rightarrow> (c # p) # ps))"

text \<open>
  An element of an array of strings inside a template literal: out of range the element
  is undefined, which is rendered as that word.
\<close>

definition index :: "string list \<Rightarrow> nat \<Rightarrow> string" where
  "index xs i = (if i < length xs then xs ! i else ''undefined'')"

section \<open>Data exchanged with the services\<close>

text \<open>
  The replies have the shape the services declare: a tag has a key and a value, a text
  detection has its text and its type (the service sends "LINE" or "WORD"; any string is
  allowed here), and the tag set of a tagging reply may be absent, which the handler
  reads as the empty list. The fields of a queue record are strings.
\<close>

record tag =
  Key :: string
  Value :: string

record text_detection =
  DetectedText :: string
  Type :: string

record rekognition_response =
  TextDetections :: "text_detection list"

record tagging_response =
  TagSet :: "tag list option"

record message =
  body :: string
  eventSourceARN :: string
  awsRegion :: string
  receiptHandle :: string

record event =
  Records :: "message list"

datatype response_body =
    Object_already_processed
  | Processing_completed_successfully rekognition_response

record response =
  statusCode :: nat
  response_body :: response_body

text \<open>The commands the handler sends, with the arguments it builds for them.\<close>

datatype command =
    GetObjectTaggingCommand js_value js_value
  | DetectTextCommand js_value js_value nat
  | PutItemCommand "string option" string string bool
  | PutObjectTaggingCommand js_value js_value "tag list"
  | DeleteMessageCommand string string

text \<open>The console lines of the handler, each with the identity it interpolates.\<close>

datatype log_line =
    Processing_S3_Object string
  | Already_processed_skipping string
  | Rekognition_response rekognition_response
  | Tag_value_updated string
  | Tag_added string
  | Maximum_of_10_tags_skipping string

datatype effect =
    Send command
  | ConsoleLog log_line
  | ConsoleError

text \<open>
  Everything outside the handler: the JSON parser, the engine's lower-casing of strings
  that are not ASCII, the two environment variables, and what each service answers to a command (a fault or a reply). Each service is called
  at most once in a run, so a function from the request is as general as a stateful
  service.
\<close>

record environment =
  JSON_parse :: "string \<Rightarrow> error + js_value"
  unicode_toLowerCase :: "string \<Rightarrow> string"
  WORD_TO_DETECT :: "string option"
  DYNAMODB_TABLE :: "string option"
  s3_GetObjectTagging :: "js_value \<Rightarrow> js_value \<Rightarrow> error + tagging_response"
  rekognition_DetectText :: "js_value \<Rightarrow> js_value \<Rightarrow> nat \<Rightarrow> error + rekognition_response"
  dynamodb_PutItem :: "string option \<Rightarrow> string \<Rightarrow> string \<Rightarrow> bool \<Rightarrow> error + unit"
  s3_PutObjectTagging :: "js_value \<Rightarrow> js_value \<Rightarrow> tag list \<Rightarrow> error + unit"
  sqs_DeleteMessage :: "string \<Rightarrow> string \<Rightarrow> error + unit"

section \<open>The result aggregation\<close>

definition detectedText :: "text_detection list \<Rightarrow> string" where
  "detectedText textDetections =
     join '' | '' (map DetectedText (filter (\<lambda>text. Type text = ''LINE'') textDetections))"

text \<open>
  \<^verbatim>\<open>Array.prototype.some\<close> with the handler's callback. The callback reads
  \<^verbatim>\<open>process.env.WORD_TO_DETECT\<close> each time it runs; calling \<^verbatim>\<open>toLowerCase\<close> on an unset
  variable throws a TypeError. The iteration stops at the first match.
\<close>

fun some_includes :: "environment \<Rightarrow> text_detection list \<Rightarrow> error + bool" where
  "some_includes env [] = Inr False"
| "some_includes env (text # texts) =
     (case WORD_TO_DETECT env of
        None \<Rightarrow> Inl TypeError
      | Some w \<Rightarrow>
          if str_includes (toLowerCase (unicode_toLowerCase env) (DetectedText text))
               (toLowerCase (unicode_toLowerCase env) w)
          then Inr True
          else some_includes env texts)"

definition wordDetected :: "environment \<Rightarrow> text_detection list \<Rightarrow> error + bool" where
  "wordDetected env textDetections =
     some_includes env (filter (\<lambda>text. Type text = ''WORD'') textDetections)"

section \<open>Running the handler: effects in order, then a result or a thrown error\<close>

type_synonym 'a run = "effect list \<times> (error + 'a)"

definition return :: "'a \<Rightarrow> 'a run" where
  "return a = ([], Inr a)"

definition lift :: "error + 'a \<Rightarrow> 'a run" where
  "lift r = ([], r)"

definition send :: "command \<Rightarrow> error + 'a \<Rightarrow> 'a run" where
  "send c answer = ([Send c], answer)"

definition console_log :: "log_line \<Rightarrow> unit run" where
  "console_log l = ([ConsoleLog l], Inr ())"

text \<open>Sequencing of awaited steps: a thrown error skips everything after it.\<close>

definition bind :: "'a run \<Rightarrow> ('a \<Rightarrow> 'b run) \<Rightarrow> 'b run" where
  "bind m f =
     (case m of
        (effects, Inl e) \<Rightarrow> (effects, Inl e)
      | (effects, Inr a) \<Rightarrow> (case f a of (effects', r) \<Rightarrow> (effects @ effects', r)))"

text \<open>The catch block: log, then throw the same error again.\<close>

definition try_catch :: "'a run \<Rightarrow> 'a run" where
  "try_catch m =
     (case m of
        (effects, Inl e) \<Rightarrow> (effects @ [ConsoleError], Inl e)
      | (effects, Inr a) \<Rightarrow> (effects, Inr a))"

section \<open>The handler\<close>

definition processedByRekognitionTextDetectionTag :: string where
  "processedByRekognitionTextDetectionTag = ''rekognition_text_detection''"

text \<open>Line 29: the template literal converts the bucket, then the key; either may throw.\<close>

definition s3Uri :: "js_value \<Rightarrow> js_value \<Rightarrow> error + string" where
  "s3Uri bucket key =
     (case ToString bucket of
        Inl e \<Rightarrow> Inl e
      | Inr b \<Rightarrow>
          (case ToString key of
             Inl e \<Rightarrow> Inl e
           | Inr k \<Rightarrow> Inr (''s3://'' @ b @ ''/'' @ k)))"

definition existingTags :: "tagging_response \<Rightarrow> tag list" where
  "existingTags taggingResponse = (case TagSet taggingResponse of None \<Rightarrow> [] | Some tags \<Rightarrow> tags)"

definition hasRekognitionTextDetectionTag :: "tag list \<Rightarrow> bool" where
  "hasRekognitionTextDetectionTag tags =
     list_ex (\<lambda>tag. Key tag = processedByRekognitionTextDetectionTag \<and> Value tag = ''true'') tags"

text \<open>Lines 112 to 160: the marker write after the record is stored.\<close>

definition update_tag_value :: "tag list \<Rightarrow> tag list" where
  "update_tag_value tags =
     map (\<lambda>tag. if Key tag = processedByRekognitionTextDetectionTag
                 then \<lparr>Key = Key tag, Value = ''true''\<rparr> else tag) tags"

definition add_processed_tag :: "tag list \<Rightarrow> tag list" where
  "add_processed_tag tags =
     tags @ [\<lparr>Key = processedByRekognitionTextDetectionTag, Value = ''true''\<rparr>]"

definition tag_as_processed ::
    "environment \<Rightarrow> js_value \<Rightarrow> js_value \<Rightarrow> string \<Rightarrow> tag list \<Rightarrow> unit run" where
  "tag_as_processed env bucket key uri tags =
     (if list_ex (\<lambda>tag. Key tag = processedByRekognitionTextDetectionTag \<and> Value tag = ''false'') tags
      then
        bind (send (PutObjectTaggingCommand bucket key (update_tag_value tags))
                (s3_PutObjectTagging env bucket key (update_tag_value tags))) (\<lambda>_.
        console_log (Tag_value_updated uri))
      else if length tags < 10 then
        bind (send (PutObjectTaggingCommand bucket key (add_processed_tag tags))
                (s3_PutObjectTagging env bucket key (add_processed_tag tags))) (\<lambda>_.
        console_log (Tag_added uri))
      else
        console_log (Maximum_of_10_tags_skipping uri))"

text \<open>Lines 162 to 175: the queue address from the message, and the delete call.\<close>

definition queueUrl :: "message \<Rightarrow> string" where
  "queueUrl message =
     (let arnParts = split CHR '':'' (eventSourceARN message);
          accountId = index arnParts 4;
          queueName = index arnParts 5;
          region = awsRegion message
      in ''https://sqs.'' @ region @ ''.amazonaws.com/'' @ accountId @ ''/'' @ queueName)"

definition delete_message :: "environment \<Rightarrow> message \<Rightarrow> unit run" where
  "delete_message env message =
     send (DeleteMessageCommand (queueUrl message) (receiptHandle message))
       (sqs_DeleteMessage env (queueUrl message) (receiptHandle message))"

text \<open>Lines 56 to 184: what runs when the object is not yet marked as processed.\<close>

definition process_image ::
    "environment \<Rightarrow> message \<Rightarrow> js_value \<Rightarrow> js_value \<Rightarrow> string \<Rightarrow> tag list \<Rightarrow> response run" where
  "process_image env message bucket key uri tags =
     bind (send (DetectTextCommand bucket key 90) (rekognition_DetectText env bucket key 90))
       (\<lambda>rekognitionResponse.
     bind (console_log (Rekognition_response rekognitionResponse)) (\<lambda>_.
     bind (lift (wordDetected env (TextDetections rekognitionResponse)))
       (\<lambda>contains_word.
     bind (send (PutItemCommand (DYNAMODB_TABLE env) uri
                   (detectedText (TextDetections rekognitionResponse)) contains_word)
             (dynamodb_PutItem env (DYNAMODB_TABLE env) uri
                   (detectedText (TextDetections rekognitionResponse)) contains_word)) (\<lambda>_.
     bind (tag_as_processed env bucket key uri tags) (\<lambda>_.
     bind (delete_message env message) (\<lambda>_.
     return \<lparr>statusCode = 200,
             response_body = Processing_completed_successfully rekognitionResponse\<rparr>))))))"

text \<open>Lines 27 to 54, then the rest: the body of the try block.\<close>

definition try_block :: "environment \<Rightarrow> message \<Rightarrow> response run" where
  "try_block env message =
     bind (lift (JSON_parse env (body message))) (\<lambda>s3Object.
     bind (lift (destructure_bucket_key s3Object)) (\<lambda>(bucket, key).
     bind (lift (s3Uri bucket key)) (\<lambda>uri.
     bind (console_log (Processing_S3_Object uri)) (\<lambda>_.
     bind (send (GetObjectTaggingCommand bucket key) (s3_GetObjectTagging env bucket key))
       (\<lambda>taggingResponse.
     if hasRekognitionTextDetectionTag (existingTags taggingResponse) then
       bind (console_log (Already_processed_skipping uri)) (\<lambda>_.
       return \<lparr>statusCode = 200, response_body = Object_already_processed\<rparr>)
     else process_image env message bucket key uri (existingTags taggingResponse))))))"

text \<open>
  \<^verbatim>\<open>event.Records[0]\<close> is read before the try block: with no record, reading the body
  of undefined throws a TypeError that the catch block never sees.
\<close>

definition handler :: "environment \<Rightarrow> event \<Rightarrow> response run" where
  "handler env event =
     (case Records event of
        [] \<Rightarrow> ([], Inl TypeError)
      | message # _ \<Rightarrow> try_catch (try_block env message))"

section \<open>The queue's side of an invocation\<close>

text \<open>
  The stack attaches the handler to the queue through an SQS event source with a batch
  size of one (detect-image-attributes-stack, lines 112 to 119). The event source
  removes the delivered message from the queue when the invocation returns a response,
  and leaves it in the queue, to be delivered again, when the invocation throws.
\<close>

datatype delivery = Removed_from_queue | Left_for_redelivery

definition event_source :: "environment \<Rightarrow> message \<Rightarrow> effect list \<times> delivery" where
  "event_source env message =
     (case handler env \<lparr>Records = [message]\<rparr> of
        (effects, Inl e) \<Rightarrow> (effects, Left_for_redelivery)
      | (effects, Inr response) \<Rightarrow> (effects, Removed_from_queue))"

section \<open>Reading a run\<close>


definition commands :: "effect list \<Rightarrow> command list" where
  "commands effects = concat (map (\<lambda>x. case x of Send c \<Rightarrow> [c] | _ \<Rightarrow> []) effects)"

fun is_detect :: "command \<Rightarrow> bool" where
  "is_detect (DetectTextCommand b k c) = True"
| "is_detect _ = False"

fun is_put_item :: "command \<Rightarrow> bool" where
  "is_put_item (PutItemCommand t u d w) = True"
| "is_put_item _ = False"

fun is_put_tagging :: "command \<Rightarrow> bool" where
  "is_put_tagging (PutObjectTaggingCommand b k ts) = True"
| "is_put_tagging _ = False"

fun is_get_tagging :: "command \<Rightarrow> bool" where
  "is_get_tagging (GetObjectTaggingCommand b k) = True"
| "is_get_tagging _ = False"

fun is_delete_message :: "command \<Rightarrow> bool" where
  "is_delete_message (DeleteMessageCommand u r) = True"
| "is_delete_message _ = False"

section \<open>Example inputs\<close>

definition example_body :: string where
  \<open>example_body = ''{"bucket":"b","key":"posters/p1.jpg"}''\<close>

definition body_without_key :: string where
  \<open>body_without_key = ''{"bucket":"b"}''\<close>

definition example_message :: message where
  "example_message =
     \<lparr>body = example_body,
      eventSourceARN = ''arn:aws:sqs:us-east-1:123456789012:detect-image-attributes'',
      awsRegion = ''us-east-1'',
      receiptHandle = ''receipt-1''\<rparr>"

definition example_event :: event where
  "example_event = \<lparr>Records = [example_message]\<rparr>"

definition example_object :: js_value where
  "example_object = JObject [(''bucket'', JString ''b''), (''key'', JString ''posters/p1.jpg'')]"

definition example_detections :: "text_detection list" where
  "example_detections =
     [\<lparr>DetectedText = ''FINDME NOW'', Type = ''LINE''\<rparr>,
      \<lparr>DetectedText = ''findme'', Type = ''WORD''\<rparr>]"

definition missing_label :: error where
  "missing_label = ServiceError ''No value provided for input HTTP label.''"

text \<open>
  An environment for the examples. The parser knows three bodies: the example body, the
  body without a key, and the text null. The tag client refuses an undefined bucket or
  key and otherwise answers with the given tags; detection returns the example
  fragments; the other services answer without a fault. All example strings are ASCII,
  so the engine's lower-casing is never consulted and the identity stands in for it.
\<close>

definition example_environment :: "tag list \<Rightarrow> environment" where
  "example_environment tags =
     \<lparr>JSON_parse =
        (\<lambda>s. if s = example_body then Inr example_object
             else if s = body_without_key then Inr (JObject [(''bucket'', JString ''b'')])
             else if s = ''null'' then Inr JNull
             else Inl SyntaxError),
      unicode_toLowerCase = (\<lambda>s. s),
      WORD_TO_DETECT = Some ''findme'',
      DYNAMODB_TABLE = Some ''s3-object-image-recognition-mapping'',
      s3_GetObjectTagging =
        (\<lambda>bucket key. if bucket = JUndefined \<or> key = JUndefined then Inl missing_label
                       else Inr \<lparr>TagSet = Some tags\<rparr>),
      rekognition_DetectText =
        (\<lambda>bucket key confidence. Inr \<lparr>TextDetections = example_detections\<rparr>),
      dynamodb_PutItem = (\<lambda>table uri flat contains_word. Inr ()),
      s3_PutObjectTagging = (\<lambda>bucket key tags. Inr ()),
      sqs_DeleteMessage = (\<lambda>url receipt. Inr ())\<rparr>"

definition example_fault :: error where
  "example_fault = ServiceError ''ThrottlingException''"

definition processed_tag :: "string \<Rightarrow> tag" where
  "processed_tag v = \<lparr>Key = ''rekognition_text_detection'', Value = v\<rparr>"

definition other_tag :: "string \<Rightarrow> tag" where
  "other_tag k = \<lparr>Key = k, Value = ''x''\<rparr>"

definition ten_tags :: "tag list" where
  "ten_tags = map other_tag [''a'', ''b'', ''c'', ''d'', ''e'', ''f'', ''g'', ''h'', ''i'', ''j'']"

section \<open>Library functions in closed form\<close>

lemma join_loop_Suc: "join_loop sep xs (Suc k) R = R @ concat (map (\<lambda>x. sep @ x) xs)"
  by (induction xs arbitrary: k R) simp_all

lemma join_Nil: "join sep [] = []"
  by (simp add: join_def)

lemma join_Cons: "join sep (x # xs) = x @ concat (map (\<lambda>y. sep @ y) xs)"
  by (simp add: join_def join_loop_Suc)

lemma str_includes_iff: "str_includes s t \<longleftrightarrow> (\<exists>p q. s = p @ t @ q)"
proof (induction s)
  case Nil
  show ?case by auto
next
  case (Cons c s)
  have "(\<exists>p q. c # s = p @ t @ q) \<longleftrightarrow> prefix t (c # s) \<or> (\<exists>p q. s = p @ t @ q)"
  proof
    assume "\<exists>p q. c # s = p @ t @ q"
    then obtain p q where pq: "c # s = p @ t @ q" by blast
    show "prefix t (c # s) \<or> (\<exists>p q. s = p @ t @ q)"
    proof (cases p)
      case Nil
      with pq have "prefix t (c # s)" by (simp add: prefix_def)
      then show ?thesis ..
    next
      case (Cons a p')
      with pq have "s = p' @ t @ q" by simp
      then show ?thesis by blast
    qed
  next
    assume "prefix t (c # s) \<or> (\<exists>p q. s = p @ t @ q)"
    then show "\<exists>p q. c # s = p @ t @ q"
    proof
      assume "prefix t (c # s)"
      then obtain q where "c # s = t @ q" by (auto simp: prefix_def)
      then have "c # s = [] @ t @ q" by simp
      then show ?thesis by blast
    next
      assume "\<exists>p q. s = p @ t @ q"
      then obtain p q where "s = p @ t @ q" by blast
      then have "c # s = (c # p) @ t @ q" by simp
      then show ?thesis by blast
    qed
  qed
  with Cons show ?case by simp
qed

lemma some_includes_Some:
  "WORD_TO_DETECT env = Some w \<Longrightarrow>
   some_includes env ts =
     Inr (\<exists>t\<in>set ts. str_includes (toLowerCase (unicode_toLowerCase env) (DetectedText t))
            (toLowerCase (unicode_toLowerCase env) w))"
  by (induction ts) simp_all

section \<open>Tag lists\<close>

lemma hasTag_iff:
  "hasRekognitionTextDetectionTag tags \<longleftrightarrow>
     (\<exists>tag\<in>set tags. Key tag = ''rekognition_text_detection'' \<and> Value tag = ''true'')"
  by (simp add: hasRekognitionTextDetectionTag_def processedByRekognitionTextDetectionTag_def
      list_ex_iff)

lemma filter_at_most_one:
  "length (filter P xs) \<le> 1 \<Longrightarrow> x \<in> set xs \<Longrightarrow> y \<in> set xs \<Longrightarrow> P x \<Longrightarrow> P y \<Longrightarrow> x = y"
  by (induction xs) (auto simp: filter_empty_conv split: if_splits)

lemma filter_at_most_one_nth:
  "length (filter P xs) \<le> 1 \<Longrightarrow> i < length xs \<Longrightarrow> j < length xs \<Longrightarrow> P (xs ! i)
     \<Longrightarrow> P (xs ! j) \<Longrightarrow> i = j"
proof (induction xs arbitrary: i j)
  case Nil
  then show ?case by simp
next
  case (Cons a xs)
  show ?case
  proof (cases "P a")
    case True
    with Cons.prems(1) have none: "\<forall>x\<in>set xs. \<not> P x"
      by (simp add: filter_empty_conv)
    have "i = 0"
    proof (cases i)
      case (Suc i')
      with Cons.prems(2,4) none show ?thesis by auto
    qed simp
    moreover have "j = 0"
    proof (cases j)
      case (Suc j')
      with Cons.prems(3,5) none show ?thesis by auto
    qed simp
    ultimately show ?thesis by simp
  next
    case False
    with Cons.prems(4,5) obtain i' j' where ij: "i = Suc i'" "j = Suc j'"
      by (cases i; cases j) auto
    with Cons.prems False have "i' = j'"
      by (intro Cons.IH) auto
    with ij show ?thesis by simp
  qed
qed

lemma only_marker_entry:
  assumes "length (filter (\<lambda>t. Key t = ''rekognition_text_detection'') tags) \<le> 1"
    and tag: "tag \<in> set tags" "Key tag = ''rekognition_text_detection''"
    and that: "t \<in> set tags" "Key t = ''rekognition_text_detection''"
  shows "t = tag"
  by (rule filter_at_most_one [where P = "\<lambda>t. Key t = ''rekognition_text_detection''", OF assms(1) that(1) tag(1) that(2) tag(2)])

lemma other_value_not_marked:
  assumes only: "\<And>t. t \<in> set tags \<Longrightarrow> Key t = ''rekognition_text_detection'' \<Longrightarrow> t = tag"
    and "Value tag \<noteq> ''true''"
  shows "\<not> hasRekognitionTextDetectionTag tags"
  unfolding hasTag_iff using assms by blast

lemma add_processed_tag_second:
  assumes "tag \<in> set tags" "Key tag = ''rekognition_text_detection''"
   and "length (filter (\<lambda>t. Key t = ''rekognition_text_detection'') tags) \<le> 1"
  shows "length (filter (\<lambda>t. Key t = ''rekognition_text_detection'') (add_processed_tag tags)) = 2"
proof -
  from assms(1,2) have "filter (\<lambda>t. Key t = ''rekognition_text_detection'') tags \<noteq> []"
    unfolding filter_empty_conv by blast
  then have "length (filter (\<lambda>t. Key t = ''rekognition_text_detection'') tags) = 1"
    using assms(3) by (cases "filter (\<lambda>t. Key t = ''rekognition_text_detection'') tags") simp_all
  then show ?thesis
    by (simp add: add_processed_tag_def processedByRekognitionTextDetectionTag_def)
qed

lemma update_tag_value_nth:
  "i < length tags \<Longrightarrow>
   update_tag_value tags ! i =
     (if Key (tags ! i) = ''rekognition_text_detection''
      then \<lparr>Key = ''rekognition_text_detection'', Value = ''true''\<rparr> else tags ! i)"
  by (simp add: update_tag_value_def processedByRekognitionTextDetectionTag_def)

lemma update_tag_value_others:
  "filter (\<lambda>t. Key t \<noteq> ''rekognition_text_detection'') (update_tag_value tags)
     = filter (\<lambda>t. Key t \<noteq> ''rekognition_text_detection'') tags"
  by (induction tags)
     (simp_all add: update_tag_value_def processedByRekognitionTextDetectionTag_def)

lemma add_processed_tag_others:
  "filter (\<lambda>t. Key t \<noteq> ''rekognition_text_detection'') (add_processed_tag tags)
     = filter (\<lambda>t. Key t \<noteq> ''rekognition_text_detection'') tags"
  by (simp add: add_processed_tag_def processedByRekognitionTextDetectionTag_def)

lemma update_tag_value_markers:
  "length (filter (\<lambda>t. Key t = ''rekognition_text_detection'') (update_tag_value tags))
     = length (filter (\<lambda>t. Key t = ''rekognition_text_detection'') tags)"
  by (induction tags)
     (simp_all add: update_tag_value_def processedByRekognitionTextDetectionTag_def)

section \<open>Runs in closed form\<close>

lemmas run_defs = return_def lift_def send_def console_log_def bind_def try_catch_def

lemma handler_Cons: "handler env \<lparr>Records = message # rest\<rparr> = try_catch (try_block env message)"
  by (simp add: handler_def)

lemma commands_simps:
  "commands [] = []"
  "commands (Send c # effects) = c # commands effects"
  "commands (ConsoleLog l # effects) = commands effects"
  "commands (ConsoleError # effects) = commands effects"
  "commands (xs @ ys) = commands xs @ commands ys"
  by (simp_all add: commands_def)

lemma commands_try_catch: "commands (fst (try_catch m)) = commands (fst m)"
  by (cases m) (auto simp: try_catch_def commands_simps split: sum.splits)

lemma snd_try_catch: "snd (try_catch m) = snd m"
  by (cases m) (auto simp: try_catch_def split: sum.splits)

lemma try_block_unfold:
  "try_block env message =
     (case JSON_parse env (body message) of
        Inl e \<Rightarrow> ([], Inl e)
      | Inr s3Object \<Rightarrow>
     (case destructure_bucket_key s3Object of
        Inl e \<Rightarrow> ([], Inl e)
      | Inr (bucket, key) \<Rightarrow>
     (case s3Uri bucket key of
        Inl e \<Rightarrow> ([], Inl e)
      | Inr uri \<Rightarrow>
     (case s3_GetObjectTagging env bucket key of
        Inl e \<Rightarrow> ([ConsoleLog (Processing_S3_Object uri),
                   Send (GetObjectTaggingCommand bucket key)], Inl e)
      | Inr taggingResponse \<Rightarrow>
          if hasRekognitionTextDetectionTag (existingTags taggingResponse) then
            ([ConsoleLog (Processing_S3_Object uri),
              Send (GetObjectTaggingCommand bucket key),
              ConsoleLog (Already_processed_skipping uri)],
             Inr \<lparr>statusCode = 200, response_body = Object_already_processed\<rparr>)
          else
            (ConsoleLog (Processing_S3_Object uri) #
             Send (GetObjectTaggingCommand bucket key) #
             fst (process_image env message bucket key uri (existingTags taggingResponse)),
             snd (process_image env message bucket key uri (existingTags taggingResponse)))))))"
  by (simp add: try_block_def run_defs split: sum.splits prod.splits)

lemma try_block_no_uri:
  assumes "JSON_parse env (body message) = Inr s3Object"
    and "destructure_bucket_key s3Object = Inr (bucket, key)"
    and "s3Uri bucket key = Inl e"
  shows "try_block env message = ([], Inl e)"
  using assms by (simp add: try_block_def run_defs)

lemma try_block_not_parsed:
  assumes "JSON_parse env (body message) = Inl e"
  shows "try_block env message = ([], Inl e)"
  using assms by (simp add: try_block_def run_defs)

lemma try_block_not_destructured:
  assumes "JSON_parse env (body message) = Inr s3Object"
    and "destructure_bucket_key s3Object = Inl e"
  shows "try_block env message = ([], Inl e)"
  using assms by (simp add: try_block_def run_defs)

lemma try_block_no_tags:
  assumes "JSON_parse env (body message) = Inr s3Object"
    and "destructure_bucket_key s3Object = Inr (bucket, key)"
    and "s3Uri bucket key = Inr uri"
    and "s3_GetObjectTagging env bucket key = Inl e"
  shows "try_block env message =
           ([ConsoleLog (Processing_S3_Object uri),
             Send (GetObjectTaggingCommand bucket key)], Inl e)"
  using assms by (simp add: try_block_def run_defs)

lemma try_block_skip:
  assumes "JSON_parse env (body message) = Inr s3Object"
    and "destructure_bucket_key s3Object = Inr (bucket, key)"
    and "s3Uri bucket key = Inr uri"
    and "s3_GetObjectTagging env bucket key = Inr taggingResponse"
    and "hasRekognitionTextDetectionTag (existingTags taggingResponse)"
  shows "try_block env message =
           ([ConsoleLog (Processing_S3_Object uri),
             Send (GetObjectTaggingCommand bucket key),
             ConsoleLog (Already_processed_skipping uri)],
            Inr \<lparr>statusCode = 200, response_body = Object_already_processed\<rparr>)"
  using assms by (simp add: try_block_def run_defs)

lemma try_block_process:
  assumes "JSON_parse env (body message) = Inr s3Object"
    and "destructure_bucket_key s3Object = Inr (bucket, key)"
    and "s3Uri bucket key = Inr uri"
    and "s3_GetObjectTagging env bucket key = Inr taggingResponse"
    and "\<not> hasRekognitionTextDetectionTag (existingTags taggingResponse)"
  shows "try_block env message =
           (ConsoleLog (Processing_S3_Object uri) #
            Send (GetObjectTaggingCommand bucket key) #
            fst (process_image env message bucket key uri (existingTags taggingResponse)),
            snd (process_image env message bucket key uri (existingTags taggingResponse)))"
  using assms by (simp add: try_block_def run_defs split: prod.splits)

lemma tag_as_processed_cases:
  "tag_as_processed env bucket key uri tags =
     (if (\<exists>tag\<in>set tags. Key tag = ''rekognition_text_detection'' \<and> Value tag = ''false'') then
        (case s3_PutObjectTagging env bucket key (update_tag_value tags) of
           Inl e \<Rightarrow> ([Send (PutObjectTaggingCommand bucket key (update_tag_value tags))], Inl e)
         | Inr u \<Rightarrow> ([Send (PutObjectTaggingCommand bucket key (update_tag_value tags)),
                      ConsoleLog (Tag_value_updated uri)], Inr ()))
      else if length tags < 10 then
        (case s3_PutObjectTagging env bucket key (add_processed_tag tags) of
           Inl e \<Rightarrow> ([Send (PutObjectTaggingCommand bucket key (add_processed_tag tags))], Inl e)
         | Inr u \<Rightarrow> ([Send (PutObjectTaggingCommand bucket key (add_processed_tag tags)),
                      ConsoleLog (Tag_added uri)], Inr ()))
      else ([ConsoleLog (Maximum_of_10_tags_skipping uri)], Inr ()))"
  by (auto simp: tag_as_processed_def run_defs list_ex_iff
      processedByRekognitionTextDetectionTag_def split: sum.splits)

lemma tag_as_processed_rewrites:
  assumes "\<exists>t\<in>set tags. Key t = ''rekognition_text_detection'' \<and> Value t = ''false''"
  shows "commands (fst (tag_as_processed env bucket key uri tags))
           = [PutObjectTaggingCommand bucket key (update_tag_value tags)]"
proof (cases "s3_PutObjectTagging env bucket key (update_tag_value tags)")
  case (Inl e)
  with assms show ?thesis by (simp add: tag_as_processed_cases commands_simps)
next
  case (Inr u)
  with assms show ?thesis by (simp add: tag_as_processed_cases commands_simps)
qed

lemma tag_as_processed_appends:
  assumes "\<not> (\<exists>t\<in>set tags. Key t = ''rekognition_text_detection'' \<and> Value t = ''false'')"
    and "length tags < 10"
  shows "commands (fst (tag_as_processed env bucket key uri tags))
           = [PutObjectTaggingCommand bucket key (add_processed_tag tags)]"
  unfolding tag_as_processed_cases if_not_P [OF assms(1)] if_P [OF assms(2)]
  by (cases "s3_PutObjectTagging env bucket key (add_processed_tag tags)")
     (simp_all add: commands_simps)

lemma commands_tag_as_processed:
  "commands (fst (tag_as_processed env bucket key uri tags)) = [] \<or>
   (\<exists>ts. commands (fst (tag_as_processed env bucket key uri tags))
            = [PutObjectTaggingCommand bucket key ts])"
  by (simp add: tag_as_processed_cases commands_simps split: sum.splits)

lemma tag_as_processed_filters:
  assumes "tag_as_processed env bucket key uri tags = (tag_effects, r)"
  shows "filter is_get_tagging (commands tag_effects) = []"
    and "filter is_detect (commands tag_effects) = []"
    and "filter is_put_item (commands tag_effects) = []"
    and "length (filter is_put_tagging (commands tag_effects)) \<le> Suc 0"
    and "filter is_delete_message (commands tag_effects) = []"
  using commands_tag_as_processed [of env bucket key uri tags] assms by auto

lemma process_image_unfold:
  "process_image env message bucket key uri tags =
     (case rekognition_DetectText env bucket key 90 of
        Inl e \<Rightarrow> ([Send (DetectTextCommand bucket key 90)], Inl e)
      | Inr rekognitionResponse \<Rightarrow>
     (case wordDetected env (TextDetections rekognitionResponse) of
        Inl e \<Rightarrow> ([Send (DetectTextCommand bucket key 90),
                   ConsoleLog (Rekognition_response rekognitionResponse)], Inl e)
      | Inr contains_word \<Rightarrow>
     (case dynamodb_PutItem env (DYNAMODB_TABLE env) uri
             (detectedText (TextDetections rekognitionResponse)) contains_word of
        Inl e \<Rightarrow> ([Send (DetectTextCommand bucket key 90),
                   ConsoleLog (Rekognition_response rekognitionResponse),
                   Send (PutItemCommand (DYNAMODB_TABLE env) uri
                     (detectedText (TextDetections rekognitionResponse)) contains_word)], Inl e)
      | Inr stored \<Rightarrow>
     (case tag_as_processed env bucket key uri tags of
        (tag_effects, Inl e) \<Rightarrow>
            ([Send (DetectTextCommand bucket key 90),
              ConsoleLog (Rekognition_response rekognitionResponse),
              Send (PutItemCommand (DYNAMODB_TABLE env) uri
                (detectedText (TextDetections rekognitionResponse)) contains_word)]
             @ tag_effects, Inl e)
      | (tag_effects, Inr tagged) \<Rightarrow>
            ([Send (DetectTextCommand bucket key 90),
              ConsoleLog (Rekognition_response rekognitionResponse),
              Send (PutItemCommand (DYNAMODB_TABLE env) uri
                (detectedText (TextDetections rekognitionResponse)) contains_word)]
             @ tag_effects
             @ [Send (DeleteMessageCommand (queueUrl message) (receiptHandle message))],
             (case sqs_DeleteMessage env (queueUrl message) (receiptHandle message) of
                Inl e \<Rightarrow> Inl e
              | Inr deleted \<Rightarrow>
                  Inr \<lparr>statusCode = 200,
                       response_body = Processing_completed_successfully rekognitionResponse\<rparr>))))))"
  by (simp add: process_image_def delete_message_def run_defs split: sum.splits prod.splits)

lemma process_image_stored:
  assumes "rekognition_DetectText env bucket key 90 = Inr rekognitionResponse"
    and "wordDetected env (TextDetections rekognitionResponse) = Inr contains_word"
    and "dynamodb_PutItem env (DYNAMODB_TABLE env) uri
           (detectedText (TextDetections rekognitionResponse)) contains_word = Inr ()"
    and "tag_as_processed env bucket key uri tags = (tag_effects, Inr ())"
    and "sqs_DeleteMessage env (queueUrl message) (receiptHandle message) = Inr ()"
  shows "process_image env message bucket key uri tags =
           ([Send (DetectTextCommand bucket key 90),
             ConsoleLog (Rekognition_response rekognitionResponse),
             Send (PutItemCommand (DYNAMODB_TABLE env) uri
                   (detectedText (TextDetections rekognitionResponse)) contains_word)]
            @ tag_effects @
            [Send (DeleteMessageCommand (queueUrl message) (receiptHandle message))],
            Inr \<lparr>statusCode = 200,
                 response_body = Processing_completed_successfully rekognitionResponse\<rparr>)"
  using assms by (simp add: process_image_def delete_message_def run_defs)

lemma process_image_no_retry:
  "filter is_get_tagging (commands (fst (process_image env message bucket key uri tags))) = []
   \<and> length (filter is_detect (commands (fst (process_image env message bucket key uri tags)))) \<le> Suc 0
   \<and> length (filter is_put_item (commands (fst (process_image env message bucket key uri tags)))) \<le> Suc 0
   \<and> length (filter is_put_tagging (commands (fst (process_image env message bucket key uri tags)))) \<le> Suc 0
   \<and> length (filter is_delete_message (commands (fst (process_image env message bucket key uri tags)))) \<le> Suc 0"
proof -
  obtain tag_effects r where t: "tag_as_processed env bucket key uri tags = (tag_effects, r)"
    by (cases "tag_as_processed env bucket key uri tags")
  note f = tag_as_processed_filters [OF t]
  show ?thesis
    unfolding process_image_unfold t
    by (simp add: commands_simps f split: sum.splits)
qed

lemma try_block_no_retry:
  "length (filter is_get_tagging (commands (fst (try_block env message)))) \<le> Suc 0
   \<and> length (filter is_detect (commands (fst (try_block env message)))) \<le> Suc 0
   \<and> length (filter is_put_item (commands (fst (try_block env message)))) \<le> Suc 0
   \<and> length (filter is_put_tagging (commands (fst (try_block env message)))) \<le> Suc 0
   \<and> length (filter is_delete_message (commands (fst (try_block env message)))) \<le> Suc 0"
  unfolding try_block_unfold
  using process_image_no_retry [of env message]
  by (simp add: commands_simps split: sum.splits prod.splits)

lemma commands_handler:
  "commands (fst (handler env ev)) =
     (case Records ev of [] \<Rightarrow> [] | message # rest \<Rightarrow> commands (fst (try_block env message)))"
  by (simp add: handler_def commands_try_catch commands_simps split: list.splits)

lemma handler_no_retry:
  "length (filter is_get_tagging (commands (fst (handler env ev)))) \<le> 1"
  "length (filter is_detect (commands (fst (handler env ev)))) \<le> 1"
  "length (filter is_put_item (commands (fst (handler env ev)))) \<le> 1"
  "length (filter is_put_tagging (commands (fst (handler env ev)))) \<le> 1"
  "length (filter is_delete_message (commands (fst (handler env ev)))) \<le> 1"
  unfolding commands_handler
  using try_block_no_retry [of env]
  by (cases "Records ev"; simp)+

lemma commands_not_marked:
  assumes "JSON_parse env (body message) = Inr s3Object"
    and "destructure_bucket_key s3Object = Inr (bucket, key)"
    and "s3Uri bucket key = Inr uri"
    and "s3_GetObjectTagging env bucket key = Inr taggingResponse"
    and "\<not> hasRekognitionTextDetectionTag (existingTags taggingResponse)"
    and "rekognition_DetectText env bucket key 90 = Inr rekognitionResponse"
    and "wordDetected env (TextDetections rekognitionResponse) = Inr contains_word"
    and "dynamodb_PutItem env (DYNAMODB_TABLE env) uri
           (detectedText (TextDetections rekognitionResponse)) contains_word = Inr ()"
  shows "commands (fst (handler env \<lparr>Records = message # rest\<rparr>)) =
      [GetObjectTaggingCommand bucket key, DetectTextCommand bucket key 90,
       PutItemCommand (DYNAMODB_TABLE env) uri
         (detectedText (TextDetections rekognitionResponse)) contains_word]
      @ commands (fst (tag_as_processed env bucket key uri (existingTags taggingResponse)))
      @ (if snd (tag_as_processed env bucket key uri (existingTags taggingResponse)) = Inr ()
         then [DeleteMessageCommand (queueUrl message) (receiptHandle message)] else [])"
proof -
  obtain tag_effects r where t: "tag_as_processed env bucket key uri (existingTags taggingResponse)
      = (tag_effects, r)" by (cases "tag_as_processed env bucket key uri (existingTags taggingResponse)")
  show ?thesis
    using try_block_process [OF assms(1-5)] assms(6-8) t
    by (cases r) (simp_all add: handler_Cons commands_try_catch commands_simps process_image_unfold)
qed

lemma appended_in_run:
  assumes "JSON_parse env (body message) = Inr s3Object"
    and "destructure_bucket_key s3Object = Inr (bucket, key)"
    and "s3Uri bucket key = Inr uri"
    and "s3_GetObjectTagging env bucket key = Inr taggingResponse"
    and "\<not> hasRekognitionTextDetectionTag (existingTags taggingResponse)"
    and "rekognition_DetectText env bucket key 90 = Inr rekognitionResponse"
    and "wordDetected env (TextDetections rekognitionResponse) = Inr contains_word"
    and "dynamodb_PutItem env (DYNAMODB_TABLE env) uri
           (detectedText (TextDetections rekognitionResponse)) contains_word = Inr ()"
    and "commands (fst (tag_as_processed env bucket key uri (existingTags taggingResponse))) = [c]"
  shows "c \<in> set (commands (fst (handler env \<lparr>Records = message # rest\<rparr>)))"
    and "PutObjectTaggingCommand b k ts
           \<in> set (commands (fst (handler env \<lparr>Records = message # rest\<rparr>)))
         \<Longrightarrow> PutObjectTaggingCommand b k ts = c"
proof -
  note cmds = commands_not_marked [OF assms(1-8), where rest = rest]
  show "c \<in> set (commands (fst (handler env \<lparr>Records = message # rest\<rparr>)))"
    unfolding cmds assms(9) by simp
  assume "PutObjectTaggingCommand b k ts
           \<in> set (commands (fst (handler env \<lparr>Records = message # rest\<rparr>)))"
  then show "PutObjectTaggingCommand b k ts = c"
    unfolding cmds assms(9) by (simp split: if_splits)
qed

lemma put_tagging_in_run:
  assumes "PutObjectTaggingCommand b k ts \<in> set (commands (fst (handler env ev)))"
  shows "\<exists>taggingResponse. s3_GetObjectTagging env b k = Inr taggingResponse
           \<and> (ts = update_tag_value (existingTags taggingResponse)
              \<or> ts = add_processed_tag (existingTags taggingResponse))"
proof (cases "Records ev")
  case Nil
  with assms show ?thesis by (simp add: handler_def commands_simps)
next
  case (Cons message rest)
  with assms have "PutObjectTaggingCommand b k ts \<in> set (commands (fst (try_block env message)))"
    by (simp add: handler_def commands_try_catch)
  then show ?thesis
    by (auto simp: try_block_unfold process_image_unfold tag_as_processed_cases commands_simps
        split: sum.splits prod.splits if_splits)
qed

section \<open>The example inputs evaluated\<close>

lemma example_aggregate:
  "wordDetected (example_environment tags) example_detections = Inr True"
  "detectedText example_detections = ''FINDME NOW''"
  by (simp_all add: wordDetected_def detectedText_def example_detections_def toLowerCase_def
      ascii_toLowerCase_def is_ascii_def join_def example_environment_def)

lemma example_queueUrl:
  "queueUrl example_message
     = ''https://sqs.us-east-1.amazonaws.com/123456789012/detect-image-attributes''"
  by (simp add: queueUrl_def example_message_def index_def)

lemma example_destructure:
  "destructure_bucket_key example_object = Inr (JString ''b'', JString ''posters/p1.jpg'')"
  by (simp add: destructure_bucket_key_def example_object_def)

lemma example_s3Uri:
  "s3Uri (JString ''b'') (JString ''posters/p1.jpg'') = Inr ''s3://b/posters/p1.jpg''"
  by (simp add: s3Uri_def)

lemma example_parse:
  "JSON_parse (example_environment tags) (body example_message) = Inr example_object"
  by (simp add: example_environment_def example_message_def)

lemma example_tagging:
  "s3_GetObjectTagging (example_environment tags) (JString ''b'') (JString ''posters/p1.jpg'')
     = Inr \<lparr>TagSet = Some tags\<rparr>"
  by (simp add: example_environment_def)

section \<open>The short circuit and the message body\<close>

text \<open>
  Claim C1. When the tags fetched for the object contain the entry
  (rekognition_text_detection, "true"), the handler logs two lines, sends the tag fetch
  and no other command: no detection, no record, no tag write. It returns the response
  with status 200 and the message "Object already processed", and the event source
  removes the message from the queue, so it is not delivered again.
\<close>

theorem marked_object_is_skipped:
  assumes "JSON_parse env (body message) = Inr s3Object"
    and "destructure_bucket_key s3Object = Inr (bucket, key)"
    and "s3Uri bucket key = Inr uri"
    and "s3_GetObjectTagging env bucket key = Inr taggingResponse"
    and "\<lparr>Key = ''rekognition_text_detection'', Value = ''true''\<rparr> \<in> set (existingTags taggingResponse)"
  shows "handler env \<lparr>Records = message # rest\<rparr> =
           ([ConsoleLog (Processing_S3_Object uri),
             Send (GetObjectTaggingCommand bucket key),
             ConsoleLog (Already_processed_skipping uri)],
            Inr \<lparr>statusCode = 200, response_body = Object_already_processed\<rparr>)
       \<and> commands (fst (handler env \<lparr>Records = message # rest\<rparr>))
            = [GetObjectTaggingCommand bucket key]
       \<and> snd (event_source env message) = Removed_from_queue"
proof -
  from assms(5) have "hasRekognitionTextDetectionTag (existingTags taggingResponse)"
    by (force simp: hasTag_iff)
  from try_block_skip [OF assms(1-4) this]
  show ?thesis by (simp add: handler_Cons event_source_def try_catch_def commands_simps)
qed

theorem marked_object_is_skipped_witness:
  "handler (example_environment [other_tag ''a'', processed_tag ''true'']) example_event
     = ([ConsoleLog (Processing_S3_Object ''s3://b/posters/p1.jpg''),
         Send (GetObjectTaggingCommand (JString ''b'') (JString ''posters/p1.jpg'')),
         ConsoleLog (Already_processed_skipping ''s3://b/posters/p1.jpg'')],
        Inr \<lparr>statusCode = 200, response_body = Object_already_processed\<rparr>)
   \<and> snd (event_source (example_environment [other_tag ''a'', processed_tag ''true''])
          example_message) = Removed_from_queue"
  using marked_object_is_skipped [OF example_parse example_destructure example_s3Uri
      example_tagging, of "[other_tag ''a'', processed_tag ''true'']" "[]"]
  by (simp add: example_event_def existingTags_def processed_tag_def other_tag_def)



section \<open>Faults\<close>

text \<open>
  Claim C3. A fault answered by the tag fetch, by the detection or by the record write
  ends the run with that same fault, and the commands sent are exactly those up to and
  including the one that failed, so no delete call is among them. If a run does send
  the delete call, then the tag fetch, the detection, the aggregation, the record write
  and the tag step all completed before it, and the delete call is the last command.
  No kind of command is sent more than once in a run: nothing is retried.
\<close>

theorem fault_aborts_run:
  assumes "JSON_parse env (body message) = Inr s3Object"
    and "destructure_bucket_key s3Object = Inr (bucket, key)"
    and "s3Uri bucket key = Inr uri"
  shows "(s3_GetObjectTagging env bucket key = Inl e \<longrightarrow>
            handler env \<lparr>Records = message # rest\<rparr>
              = ([ConsoleLog (Processing_S3_Object uri),
                  Send (GetObjectTaggingCommand bucket key),
                  ConsoleError], Inl e))
       \<and> (s3_GetObjectTagging env bucket key = Inr taggingResponse
            \<and> \<not> hasRekognitionTextDetectionTag (existingTags taggingResponse)
            \<and> rekognition_DetectText env bucket key 90 = Inl e \<longrightarrow>
            snd (handler env \<lparr>Records = message # rest\<rparr>) = Inl e
            \<and> commands (fst (handler env \<lparr>Records = message # rest\<rparr>))
                = [GetObjectTaggingCommand bucket key, DetectTextCommand bucket key 90])
       \<and> (s3_GetObjectTagging env bucket key = Inr taggingResponse
            \<and> \<not> hasRekognitionTextDetectionTag (existingTags taggingResponse)
            \<and> rekognition_DetectText env bucket key 90 = Inr rekognitionResponse
            \<and> wordDetected env (TextDetections rekognitionResponse)
                = Inr contains_word
            \<and> dynamodb_PutItem env (DYNAMODB_TABLE env) uri
                 (detectedText (TextDetections rekognitionResponse)) contains_word = Inl e \<longrightarrow>
            snd (handler env \<lparr>Records = message # rest\<rparr>) = Inl e
            \<and> commands (fst (handler env \<lparr>Records = message # rest\<rparr>))
                = [GetObjectTaggingCommand bucket key, DetectTextCommand bucket key 90,
                   PutItemCommand (DYNAMODB_TABLE env) uri
                     (detectedText (TextDetections rekognitionResponse)) contains_word])
       \<and> (list_ex is_delete_message (commands (fst (handler env \<lparr>Records = message # rest\<rparr>)))
            \<longrightarrow> (\<exists>tr rr cw tag_effects.
                   s3_GetObjectTagging env bucket key = Inr tr
                   \<and> rekognition_DetectText env bucket key 90 = Inr rr
                   \<and> wordDetected env (TextDetections rr) = Inr cw
                   \<and> dynamodb_PutItem env (DYNAMODB_TABLE env) uri
                        (detectedText (TextDetections rr)) cw = Inr ()
                   \<and> tag_as_processed env bucket key uri (existingTags tr) = (tag_effects, Inr ())
                   \<and> commands (fst (handler env \<lparr>Records = message # rest\<rparr>))
                       = [GetObjectTaggingCommand bucket key, DetectTextCommand bucket key 90,
                          PutItemCommand (DYNAMODB_TABLE env) uri
                            (detectedText (TextDetections rr)) cw]
                         @ commands tag_effects
                         @ [DeleteMessageCommand (queueUrl message) (receiptHandle message)]))
       \<and> length (filter is_get_tagging
             (commands (fst (handler env \<lparr>Records = message # rest\<rparr>)))) \<le> 1
       \<and> length (filter is_detect
             (commands (fst (handler env \<lparr>Records = message # rest\<rparr>)))) \<le> 1
       \<and> length (filter is_put_item
             (commands (fst (handler env \<lparr>Records = message # rest\<rparr>)))) \<le> 1
       \<and> length (filter is_put_tagging
             (commands (fst (handler env \<lparr>Records = message # rest\<rparr>)))) \<le> 1
       \<and> length (filter is_delete_message
             (commands (fst (handler env \<lparr>Records = message # rest\<rparr>)))) \<le> 1"
proof -
  define run where "run = try_block env message"
  have h: "handler env \<lparr>Records = message # rest\<rparr> = try_catch run"
    by (simp add: handler_Cons run_def)
  note tagc = commands_tag_as_processed [of env bucket key uri]
  have A: "s3_GetObjectTagging env bucket key = Inl e \<longrightarrow>
            try_catch run
              = ([ConsoleLog (Processing_S3_Object uri),
                  Send (GetObjectTaggingCommand bucket key),
                  ConsoleError], Inl e)"
    using try_block_no_tags [OF assms] by (simp add: run_def try_catch_def)
  have B: "s3_GetObjectTagging env bucket key = Inr taggingResponse
            \<and> \<not> hasRekognitionTextDetectionTag (existingTags taggingResponse)
            \<and> rekognition_DetectText env bucket key 90 = Inl e \<longrightarrow>
            snd (try_catch run) = Inl e
            \<and> commands (fst (try_catch run))
                = [GetObjectTaggingCommand bucket key, DetectTextCommand bucket key 90]"
    using assms
    by (simp add: run_def try_block_unfold process_image_unfold commands_try_catch snd_try_catch
        commands_simps)
  have C: "s3_GetObjectTagging env bucket key = Inr taggingResponse
            \<and> \<not> hasRekognitionTextDetectionTag (existingTags taggingResponse)
            \<and> rekognition_DetectText env bucket key 90 = Inr rekognitionResponse
            \<and> wordDetected env (TextDetections rekognitionResponse)
                = Inr contains_word
            \<and> dynamodb_PutItem env (DYNAMODB_TABLE env) uri
                 (detectedText (TextDetections rekognitionResponse)) contains_word = Inl e \<longrightarrow>
            snd (try_catch run) = Inl e
            \<and> commands (fst (try_catch run))
                = [GetObjectTaggingCommand bucket key, DetectTextCommand bucket key 90,
                   PutItemCommand (DYNAMODB_TABLE env) uri
                     (detectedText (TextDetections rekognitionResponse)) contains_word]"
    using assms
    by (simp add: run_def try_block_unfold process_image_unfold commands_try_catch snd_try_catch
        commands_simps)
  have D: "list_ex is_delete_message (commands (fst (try_catch run)))
            \<longrightarrow> (\<exists>tr rr cw tag_effects.
                   s3_GetObjectTagging env bucket key = Inr tr
                   \<and> rekognition_DetectText env bucket key 90 = Inr rr
                   \<and> wordDetected env (TextDetections rr) = Inr cw
                   \<and> dynamodb_PutItem env (DYNAMODB_TABLE env) uri
                        (detectedText (TextDetections rr)) cw = Inr ()
                   \<and> tag_as_processed env bucket key uri (existingTags tr) = (tag_effects, Inr ())
                   \<and> commands (fst (try_catch run))
                       = [GetObjectTaggingCommand bucket key, DetectTextCommand bucket key 90,
                          PutItemCommand (DYNAMODB_TABLE env) uri
                            (detectedText (TextDetections rr)) cw]
                         @ commands tag_effects
                         @ [DeleteMessageCommand (queueUrl message) (receiptHandle message)])"
  proof (cases "s3_GetObjectTagging env bucket key")
    case (Inl e')
    with assms show ?thesis
      by (simp add: run_def try_block_unfold commands_try_catch commands_simps)
  next
    case tr: (Inr tr)
    show ?thesis
    proof (cases "hasRekognitionTextDetectionTag (existingTags tr)")
      case True
      with assms tr show ?thesis
        by (simp add: run_def try_block_unfold commands_try_catch commands_simps)
    next
      case False
      show ?thesis
      proof (cases "rekognition_DetectText env bucket key 90")
        case (Inl e')
        with assms tr False show ?thesis
          by (simp add: run_def try_block_unfold process_image_unfold commands_try_catch
              commands_simps)
      next
        case rr: (Inr rr)
        show ?thesis
        proof (cases "wordDetected env (TextDetections rr)")
          case (Inl e')
          with assms tr False rr show ?thesis
            by (simp add: run_def try_block_unfold process_image_unfold commands_try_catch
                commands_simps)
        next
          case cw: (Inr cw)
          show ?thesis
          proof (cases "dynamodb_PutItem env (DYNAMODB_TABLE env) uri
                        (detectedText (TextDetections rr)) cw")
            case (Inl e')
            with assms tr False rr cw show ?thesis
              by (simp add: run_def try_block_unfold process_image_unfold commands_try_catch
                  commands_simps)
          next
            case st: (Inr u)
            obtain tag_effects r where t:
              "tag_as_processed env bucket key uri (existingTags tr) = (tag_effects, r)"
              by (cases "tag_as_processed env bucket key uri (existingTags tr)")
            from tagc [of "existingTags tr"] t
            have no_del: "\<not> list_ex is_delete_message (commands tag_effects)"
              by auto
            show ?thesis
            proof (cases r)
              case (Inl e')
              with assms tr False rr cw st t no_del show ?thesis
                by (simp add: run_def try_block_unfold process_image_unfold commands_try_catch
                    commands_simps)
            next
              case (Inr u')
              with assms tr False rr cw st t show ?thesis
                by (simp add: run_def try_block_unfold process_image_unfold commands_try_catch
                    commands_simps)
            qed
          qed
        qed
      qed
    qed
  qed
  note N = handler_no_retry [of env "\<lparr>Records = message # rest\<rparr>", unfolded h]
  show ?thesis
    unfolding h by (intro conjI A B C D N)
qed

text \<open>
  Runs of the example message with a fault in the detection, in the record write and in
  the tag fetch, and the run without a fault, which sends the delete call after the
  other commands.
\<close>

theorem fault_aborts_run_witness:
  "snd (handler ((example_environment [])
            \<lparr>rekognition_DetectText := \<lambda>bucket key confidence. Inl example_fault\<rparr>) example_event)
     = Inl example_fault
   \<and> commands (fst (handler ((example_environment [])
            \<lparr>rekognition_DetectText := \<lambda>bucket key confidence. Inl example_fault\<rparr>) example_event))
     = [GetObjectTaggingCommand (JString ''b'') (JString ''posters/p1.jpg''),
        DetectTextCommand (JString ''b'') (JString ''posters/p1.jpg'') 90]
   \<and> snd (handler ((example_environment [])
            \<lparr>dynamodb_PutItem := \<lambda>table uri flat word. Inl example_fault\<rparr>) example_event)
     = Inl example_fault
   \<and> handler ((example_environment [])
            \<lparr>s3_GetObjectTagging := \<lambda>bucket key. Inl example_fault\<rparr>) example_event
     = ([ConsoleLog (Processing_S3_Object ''s3://b/posters/p1.jpg''),
         Send (GetObjectTaggingCommand (JString ''b'') (JString ''posters/p1.jpg'')),
         ConsoleError], Inl example_fault)
   \<and> list_ex is_delete_message
         (commands (fst (handler (example_environment []) example_event)))
   \<and> take 3 (commands (fst (handler (example_environment []) example_event)))
     = [GetObjectTaggingCommand (JString ''b'') (JString ''posters/p1.jpg''),
        DetectTextCommand (JString ''b'') (JString ''posters/p1.jpg'') 90,
        PutItemCommand (Some ''s3-object-image-recognition-mapping'') ''s3://b/posters/p1.jpg''
          ''FINDME NOW'' True]"
proof -
  let ?b = "JString ''b''" and ?k = "JString ''posters/p1.jpg''"
  let ?detect = "(example_environment [])
            \<lparr>rekognition_DetectText := \<lambda>bucket key confidence. Inl example_fault\<rparr>"
  let ?store = "(example_environment [])
            \<lparr>dynamodb_PutItem := \<lambda>table uri flat word. Inl example_fault\<rparr>"
  let ?fetch = "(example_environment [])
            \<lparr>s3_GetObjectTagging := \<lambda>bucket key. Inl example_fault\<rparr>"
  have parse: "JSON_parse ?detect (body example_message) = Inr example_object"
    "JSON_parse ?store (body example_message) = Inr example_object"
    "JSON_parse ?fetch (body example_message) = Inr example_object"
    by (simp_all add: example_environment_def example_message_def)
  have word: "wordDetected ?store example_detections = Inr True"
    by (simp add: wordDetected_def example_detections_def toLowerCase_def
        ascii_toLowerCase_def is_ascii_def example_environment_def)
  have deleted: "list_ex is_delete_message
         (commands (fst (handler (example_environment []) example_event)))"
    using commands_not_marked [OF example_parse example_destructure example_s3Uri
        example_tagging, of "[]" "\<lparr>TextDetections = example_detections\<rparr>" True "[]"]
      example_aggregate
    by (simp add: example_event_def existingTags_def hasTag_iff tag_as_processed_cases
        example_environment_def)
  from fault_aborts_run [OF example_parse example_destructure example_s3Uri, of "[]" _ "[]"]
    deleted example_aggregate
  have stored: "take 3 (commands (fst (handler (example_environment []) example_event)))
     = [GetObjectTaggingCommand ?b ?k, DetectTextCommand ?b ?k 90,
        PutItemCommand (Some ''s3-object-image-recognition-mapping'') ''s3://b/posters/p1.jpg''
          ''FINDME NOW'' True]"
    by (auto simp: example_environment_def example_event_def)
  from fault_aborts_run [OF parse(1) example_destructure example_s3Uri,
      where e = example_fault and rest = "[]" and taggingResponse = "\<lparr>TagSet = Some []\<rparr>"]
  have one: "snd (handler ?detect example_event) = Inl example_fault
    \<and> commands (fst (handler ?detect example_event))
        = [GetObjectTaggingCommand ?b ?k, DetectTextCommand ?b ?k 90]"
    by (simp add: example_environment_def example_event_def existingTags_def hasTag_iff)
  from fault_aborts_run [OF parse(2) example_destructure example_s3Uri,
      where e = example_fault and rest = "[]" and taggingResponse = "\<lparr>TagSet = Some []\<rparr>"
        and rekognitionResponse = "\<lparr>TextDetections = example_detections\<rparr>"
        and contains_word = True] word example_aggregate(2)
  have two: "snd (handler ?store example_event) = Inl example_fault"
    by (simp add: example_environment_def example_event_def existingTags_def hasTag_iff)
  from fault_aborts_run [OF parse(3) example_destructure example_s3Uri,
      where e = example_fault and rest = "[]"]
  have three: "handler ?fetch example_event
     = ([ConsoleLog (Processing_S3_Object ''s3://b/posters/p1.jpg''),
         Send (GetObjectTaggingCommand ?b ?k), ConsoleError], Inl example_fault)"
    by (simp add: example_environment_def example_event_def)
  from one two three deleted stored show ?thesis by blast
qed

section \<open>The aggregated values\<close>

text \<open>
  Claim C4. For every detection result and target word, the contains-word boolean is
  true exactly when some fragment of type WORD has a text that, lower-cased, contains
  the lower-cased target word as a substring. Fragments of type LINE have no influence:
  dropping them leaves the boolean as it is. The target "FindMe" matches the word
  fragment "please findme here", whatever the engine does outside ASCII.
\<close>

theorem wordDetected_iff:
  assumes "WORD_TO_DETECT env = Some w"
  shows "wordDetected env ds =
     Inr (\<exists>t\<in>set ds. Type t = ''WORD'' \<and>
            (\<exists>p q. toLowerCase (unicode_toLowerCase env) (DetectedText t)
                     = p @ toLowerCase (unicode_toLowerCase env) w @ q))
   \<and> wordDetected env (filter (\<lambda>t. Type t \<noteq> ''LINE'') ds) = wordDetected env ds
   \<and> (w = ''FindMe'' \<longrightarrow>
        wordDetected env [\<lparr>DetectedText = ''please findme here'', Type = ''WORD''\<rparr>] = Inr True)"
proof (intro conjI impI)
  show "wordDetected env ds =
     Inr (\<exists>t\<in>set ds. Type t = ''WORD'' \<and>
            (\<exists>p q. toLowerCase (unicode_toLowerCase env) (DetectedText t)
                     = p @ toLowerCase (unicode_toLowerCase env) w @ q))"
    by (auto simp: wordDetected_def some_includes_Some [OF assms] str_includes_iff)
  have "filter (\<lambda>t. Type t = ''WORD'') (filter (\<lambda>t. Type t \<noteq> ''LINE'') ds)
          = filter (\<lambda>t. Type t = ''WORD'') ds"
    by (induction ds) auto
  then show "wordDetected env (filter (\<lambda>t. Type t \<noteq> ''LINE'') ds) = wordDetected env ds"
    by (simp add: wordDetected_def)
  assume "w = ''FindMe''"
  with assms
  show "wordDetected env [\<lparr>DetectedText = ''please findme here'', Type = ''WORD''\<rparr>] = Inr True"
    by (simp add: wordDetected_def toLowerCase_def ascii_toLowerCase_def is_ascii_def)
qed

text \<open>
  The example fragments with the target words "FINDME", which the word fragment
  contains after lower-casing, "now", which only the line fragment contains, and
  "FindMe".
\<close>

theorem wordDetected_iff_witness:
  "wordDetected ((example_environment [])\<lparr>WORD_TO_DETECT := Some ''FINDME''\<rparr>) example_detections
     = Inr True
   \<and> wordDetected ((example_environment [])\<lparr>WORD_TO_DETECT := Some ''now''\<rparr>) example_detections
     = Inr False
   \<and> wordDetected ((example_environment [])\<lparr>WORD_TO_DETECT := Some ''FindMe''\<rparr>)
       [\<lparr>DetectedText = ''please findme here'', Type = ''WORD''\<rparr>] = Inr True"
proof -
  let ?lower = "toLowerCase (\<lambda>s. s)"
  have "?lower ''findme'' = [] @ ?lower ''FINDME'' @ []"
    by (simp add: toLowerCase_def ascii_toLowerCase_def is_ascii_def)
  then have yes: "\<exists>p q. ?lower ''findme'' = p @ ?lower ''FINDME'' @ q"
    by blast
  have "\<not> str_includes (?lower ''findme'') (?lower ''now'')"
    by (simp add: toLowerCase_def ascii_toLowerCase_def is_ascii_def)
  then have no: "\<not> (\<exists>p q. ?lower ''findme'' = p @ ?lower ''now'' @ q)"
    using str_includes_iff [of "?lower ''findme''" "?lower ''now''"] by blast
  let ?e1 = "(example_environment [])\<lparr>WORD_TO_DETECT := Some ''FINDME''\<rparr>"
  let ?e2 = "(example_environment [])\<lparr>WORD_TO_DETECT := Some ''now''\<rparr>"
  let ?e3 = "(example_environment [])\<lparr>WORD_TO_DETECT := Some ''FindMe''\<rparr>"
  have w: "WORD_TO_DETECT ?e1 = Some ''FINDME''" "WORD_TO_DETECT ?e2 = Some ''now''"
    "WORD_TO_DETECT ?e3 = Some ''FindMe''"
    by simp_all
  have u: "unicode_toLowerCase ?e1 = (\<lambda>s. s)" "unicode_toLowerCase ?e2 = (\<lambda>s. s)"
    by (simp_all add: example_environment_def)
  from wordDetected_iff [OF w(1), of example_detections] yes
  have one: "wordDetected ?e1 example_detections = Inr True"
    unfolding u by (simp add: example_detections_def)
  from wordDetected_iff [OF w(2), of example_detections] no
  have two: "wordDetected ?e2 example_detections = Inr False"
    unfolding u by (simp add: example_detections_def)
  from wordDetected_iff [OF w(3)]
  have three: "wordDetected ?e3
       [\<lparr>DetectedText = ''please findme here'', Type = ''WORD''\<rparr>] = Inr True"
    by blast
  from one two three show ?thesis by blast
qed

text \<open>
  Claim C5. The flattened text is the text of the fragments of type LINE, in the order
  of the detection result, with " | " between consecutive ones; with no LINE fragment
  it is the empty string; fragments of type WORD contribute nothing, so dropping them
  leaves the text as it is.
\<close>

theorem detectedText_lines:
  "detectedText ds =
     (case filter (\<lambda>t. Type t = ''LINE'') ds of
        [] \<Rightarrow> []
      | l # ls \<Rightarrow> DetectedText l @ concat (map (\<lambda>t. '' | '' @ DetectedText t) ls))
   \<and> (filter (\<lambda>t. Type t = ''LINE'') ds = [] \<longrightarrow> detectedText ds = [])
   \<and> detectedText (filter (\<lambda>t. Type t \<noteq> ''WORD'') ds) = detectedText ds"
proof (intro conjI)
  show "detectedText ds =
     (case filter (\<lambda>t. Type t = ''LINE'') ds of
        [] \<Rightarrow> []
      | l # ls \<Rightarrow> DetectedText l @ concat (map (\<lambda>t. '' | '' @ DetectedText t) ls))"
    by (simp add: detectedText_def join_Nil join_Cons comp_def split: list.splits)
  show "filter (\<lambda>t. Type t = ''LINE'') ds = [] \<longrightarrow> detectedText ds = []"
    by (simp add: detectedText_def join_Nil)
  have "filter (\<lambda>t. Type t = ''LINE'') (filter (\<lambda>t. Type t \<noteq> ''WORD'') ds)
          = filter (\<lambda>t. Type t = ''LINE'') ds"
    by (induction ds) auto
  then show "detectedText (filter (\<lambda>t. Type t \<noteq> ''WORD'') ds) = detectedText ds"
    by (simp add: detectedText_def)
qed

theorem detectedText_lines_witness:
  "detectedText (example_detections @ [\<lparr>DetectedText = ''SECOND'', Type = ''LINE''\<rparr>])
     = ''FINDME NOW | SECOND''
   \<and> filter (\<lambda>t. Type t = ''LINE'') [\<lparr>DetectedText = ''findme'', Type = ''WORD''\<rparr>] = []
   \<and> detectedText [\<lparr>DetectedText = ''findme'', Type = ''WORD''\<rparr>] = []"
  using detectedText_lines [of "example_detections @ [\<lparr>DetectedText = ''SECOND'', Type = ''LINE''\<rparr>]"]
    detectedText_lines [of "[\<lparr>DetectedText = ''findme'', Type = ''WORD''\<rparr>]"]
  by (simp add: example_detections_def)

section \<open>The marker write\<close>

text \<open>
  Claim C6. When the tag list contains the entry (rekognition_text_detection, "false"),
  the tag step sends one tag write whose list has the same length as the fetched one,
  with every entry of another name unchanged at its position and every entry named
  rekognition_text_detection set to "true"; when at most one entry has that name, the
  written list is the fetched list with that single entry replaced. For every tag write
  in any run of the handler, the entries of other names are those of the fetched list,
  in the same order: none is deleted.
\<close>

theorem marker_update_rewrites_false_entry:
  assumes "\<lparr>Key = ''rekognition_text_detection'', Value = ''false''\<rparr> \<in> set tags"
  shows "commands (fst (tag_as_processed env bucket key uri tags))
           = [PutObjectTaggingCommand bucket key (update_tag_value tags)]
       \<and> length (update_tag_value tags) = length tags
       \<and> (\<forall>i<length tags.
            update_tag_value tags ! i =
              (if Key (tags ! i) = ''rekognition_text_detection''
               then \<lparr>Key = ''rekognition_text_detection'', Value = ''true''\<rparr> else tags ! i))
       \<and> (length (filter (\<lambda>t. Key t = ''rekognition_text_detection'') tags) \<le> 1 \<longrightarrow>
            (\<exists>i<length tags.
               tags ! i = \<lparr>Key = ''rekognition_text_detection'', Value = ''false''\<rparr>
               \<and> update_tag_value tags
                   = tags[i := \<lparr>Key = ''rekognition_text_detection'', Value = ''true''\<rparr>]))
       \<and> (\<forall>b k ts. PutObjectTaggingCommand b k ts \<in> set (commands (fst (handler env' ev))) \<longrightarrow>
            (\<exists>taggingResponse. s3_GetObjectTagging env' b k = Inr taggingResponse
               \<and> filter (\<lambda>t. Key t \<noteq> ''rekognition_text_detection'') ts
                   = filter (\<lambda>t. Key t \<noteq> ''rekognition_text_detection'')
                       (existingTags taggingResponse)))"
proof (intro conjI)
  from assms have "\<exists>tag\<in>set tags. Key tag = ''rekognition_text_detection'' \<and> Value tag = ''false''"
    by force
  then show "commands (fst (tag_as_processed env bucket key uri tags))
           = [PutObjectTaggingCommand bucket key (update_tag_value tags)]"
    by (simp add: tag_as_processed_cases commands_simps split: sum.splits)
  show "length (update_tag_value tags) = length tags"
    by (simp add: update_tag_value_def)
  show "\<forall>i<length tags.
            update_tag_value tags ! i =
              (if Key (tags ! i) = ''rekognition_text_detection''
               then \<lparr>Key = ''rekognition_text_detection'', Value = ''true''\<rparr> else tags ! i)"
    using update_tag_value_nth by blast
  show "length (filter (\<lambda>t. Key t = ''rekognition_text_detection'') tags) \<le> 1 \<longrightarrow>
            (\<exists>i<length tags.
               tags ! i = \<lparr>Key = ''rekognition_text_detection'', Value = ''false''\<rparr>
               \<and> update_tag_value tags
                   = tags[i := \<lparr>Key = ''rekognition_text_detection'', Value = ''true''\<rparr>])"
  proof
    assume one: "length (filter (\<lambda>t. Key t = ''rekognition_text_detection'') tags) \<le> 1"
    from assms obtain i where i: "i < length tags"
      "tags ! i = \<lparr>Key = ''rekognition_text_detection'', Value = ''false''\<rparr>"
      by (auto simp: in_set_conv_nth)
    have "update_tag_value tags
            = tags[i := \<lparr>Key = ''rekognition_text_detection'', Value = ''true''\<rparr>]"
    proof (rule nth_equalityI)
      show "length (update_tag_value tags)
              = length (tags[i := \<lparr>Key = ''rekognition_text_detection'', Value = ''true''\<rparr>])"
        by (simp add: update_tag_value_def)
    next
      fix j assume "j < length (update_tag_value tags)"
      then have j: "j < length tags" by (simp add: update_tag_value_def)
      show "update_tag_value tags ! j
              = tags[i := \<lparr>Key = ''rekognition_text_detection'', Value = ''true''\<rparr>] ! j"
      proof (cases "Key (tags ! j) = ''rekognition_text_detection''")
        case True
        with one i j have "i = j"
          by (intro filter_at_most_one_nth [of "\<lambda>t. Key t = ''rekognition_text_detection''" tags])
             simp_all
        with i j True show ?thesis by (simp add: update_tag_value_nth)
      next
        case False
        with i have "i \<noteq> j" by auto
        with j False show ?thesis by (simp add: update_tag_value_nth)
      qed
    qed
    with i show "\<exists>i<length tags.
               tags ! i = \<lparr>Key = ''rekognition_text_detection'', Value = ''false''\<rparr>
               \<and> update_tag_value tags
                   = tags[i := \<lparr>Key = ''rekognition_text_detection'', Value = ''true''\<rparr>]"
      by blast
  qed
  show "\<forall>b k ts. PutObjectTaggingCommand b k ts \<in> set (commands (fst (handler env' ev))) \<longrightarrow>
            (\<exists>taggingResponse. s3_GetObjectTagging env' b k = Inr taggingResponse
               \<and> filter (\<lambda>t. Key t \<noteq> ''rekognition_text_detection'') ts
                   = filter (\<lambda>t. Key t \<noteq> ''rekognition_text_detection'')
                       (existingTags taggingResponse))"
    using put_tagging_in_run update_tag_value_others add_processed_tag_others by metis
qed

text \<open>
  A list of three tags with the marker "false" in the middle, and a run of the example
  message whose object has an unrelated tag and the marker "false".
\<close>

theorem marker_update_rewrites_false_entry_witness:
  "update_tag_value [other_tag ''a'', processed_tag ''false'', other_tag ''b'']
     = [other_tag ''a'', processed_tag ''true'', other_tag ''b'']
   \<and> commands (fst (tag_as_processed (example_environment [])
         (JString ''b'') (JString ''posters/p1.jpg'') ''s3://b/posters/p1.jpg''
         [other_tag ''a'', processed_tag ''false'', other_tag ''b'']))
     = [PutObjectTaggingCommand (JString ''b'') (JString ''posters/p1.jpg'')
          [other_tag ''a'', processed_tag ''true'', other_tag ''b'']]
   \<and> PutObjectTaggingCommand (JString ''b'') (JString ''posters/p1.jpg'')
         [other_tag ''a'', processed_tag ''true'']
       \<in> set (commands (fst (handler
             (example_environment [other_tag ''a'', processed_tag ''false''])
             example_event)))
   \<and> filter (\<lambda>t. Key t \<noteq> ''rekognition_text_detection'')
         [other_tag ''a'', processed_tag ''true'']
       = filter (\<lambda>t. Key t \<noteq> ''rekognition_text_detection'')
           [other_tag ''a'', processed_tag ''false'']"
proof -
  let ?tags = "[other_tag ''a'', processed_tag ''false'', other_tag ''b'']"
  let ?fetched = "[other_tag ''a'', processed_tag ''false'']"
  let ?env = "example_environment ?fetched"
  let ?b = "JString ''b''" and ?k = "JString ''posters/p1.jpg''"
  have not_marked: "\<not> hasRekognitionTextDetectionTag (existingTags \<lparr>TagSet = Some ?fetched\<rparr>)"
    by (simp add: hasTag_iff existingTags_def processed_tag_def other_tag_def)
  have rewritten: "commands (fst (tag_as_processed ?env ?b ?k ''s3://b/posters/p1.jpg''
        (existingTags \<lparr>TagSet = Some ?fetched\<rparr>)))
      = [PutObjectTaggingCommand ?b ?k [other_tag ''a'', processed_tag ''true'']]"
    using tag_as_processed_rewrites [of ?fetched ?env ?b ?k "''s3://b/posters/p1.jpg''"]
    by (simp add: existingTags_def processed_tag_def other_tag_def update_tag_value_def
        processedByRekognitionTextDetectionTag_def)
  have stored: "dynamodb_PutItem ?env (DYNAMODB_TABLE ?env) ''s3://b/posters/p1.jpg''
      (detectedText (TextDetections \<lparr>TextDetections = example_detections\<rparr>)) True = Inr ()"
    "rekognition_DetectText ?env ?b ?k 90 = Inr \<lparr>TextDetections = example_detections\<rparr>"
    by (simp_all add: example_environment_def)
  have word: "wordDetected ?env (TextDetections \<lparr>TextDetections = example_detections\<rparr>)
      = Inr True"
    using example_aggregate(1) [of ?fetched] by simp
  have written: "PutObjectTaggingCommand ?b ?k [other_tag ''a'', processed_tag ''true'']
       \<in> set (commands (fst (handler ?env example_event)))"
    using appended_in_run(1) [OF example_parse example_destructure example_s3Uri
        example_tagging not_marked stored(2) word stored(1) rewritten, of "[]"]
    by (simp add: example_event_def)
  from marker_update_rewrites_false_entry [of ?tags _ _ _ _ ?env example_event] written
  have kept: "filter (\<lambda>t. Key t \<noteq> ''rekognition_text_detection'')
         [other_tag ''a'', processed_tag ''true'']
       = filter (\<lambda>t. Key t \<noteq> ''rekognition_text_detection'') ?fetched"
    by (auto simp: processed_tag_def example_environment_def existingTags_def)
  have in_set: "\<lparr>Key = ''rekognition_text_detection'', Value = ''false''\<rparr> \<in> set ?tags"
    by (simp add: processed_tag_def)
  have one: "length (filter (\<lambda>t. Key t = ''rekognition_text_detection'') ?tags) \<le> 1"
    by (simp add: processed_tag_def other_tag_def)
  from marker_update_rewrites_false_entry [OF in_set,
      of "example_environment []" ?b ?k "''s3://b/posters/p1.jpg''"]
  have cmds: "commands (fst (tag_as_processed (example_environment [])
         ?b ?k ''s3://b/posters/p1.jpg'' ?tags))
     = [PutObjectTaggingCommand ?b ?k (update_tag_value ?tags)]"
    and "\<exists>i<length ?tags. ?tags ! i = \<lparr>Key = ''rekognition_text_detection'', Value = ''false''\<rparr>
          \<and> update_tag_value ?tags
                = ?tags[i := \<lparr>Key = ''rekognition_text_detection'', Value = ''true''\<rparr>]"
    using one by blast+
  then obtain i where i: "i < length ?tags"
    "?tags ! i = \<lparr>Key = ''rekognition_text_detection'', Value = ''false''\<rparr>"
    "update_tag_value ?tags = ?tags[i := \<lparr>Key = ''rekognition_text_detection'', Value = ''true''\<rparr>]"
    by blast
  from i(1,2) have "i = 1"
    by (cases i) (auto simp: processed_tag_def other_tag_def nth_Cons split: nat.splits)
  with i(3) have "update_tag_value ?tags
     = [other_tag ''a'', processed_tag ''true'', other_tag ''b'']"
    by (simp add: processed_tag_def)
  with cmds written kept show ?thesis by simp
qed

text \<open>
  Claim C7. When the object has 10 tags, none of them the marker with value "false" or
  "true", and detection, record write and delete call answer, the run stores the
  record, sends no tag write, logs that the tag was skipped, sends the delete call and
  returns the response with status 200.
\<close>

theorem tag_limit_skips_marker_write:
  assumes "JSON_parse env (body message) = Inr s3Object"
    and "destructure_bucket_key s3Object = Inr (bucket, key)"
    and "s3Uri bucket key = Inr uri"
    and "s3_GetObjectTagging env bucket key = Inr taggingResponse"
    and "length (existingTags taggingResponse) = 10"
    and "\<forall>tag\<in>set (existingTags taggingResponse).
           Key tag = ''rekognition_text_detection'' \<longrightarrow>
           Value tag \<noteq> ''false'' \<and> Value tag \<noteq> ''true''"
    and "rekognition_DetectText env bucket key 90 = Inr rekognitionResponse"
    and "wordDetected env (TextDetections rekognitionResponse) = Inr contains_word"
    and "dynamodb_PutItem env (DYNAMODB_TABLE env) uri
           (detectedText (TextDetections rekognitionResponse)) contains_word = Inr ()"
    and "sqs_DeleteMessage env (queueUrl message) (receiptHandle message) = Inr ()"
  shows "handler env \<lparr>Records = message # rest\<rparr> =
           ([ConsoleLog (Processing_S3_Object uri),
             Send (GetObjectTaggingCommand bucket key),
             Send (DetectTextCommand bucket key 90),
             ConsoleLog (Rekognition_response rekognitionResponse),
             Send (PutItemCommand (DYNAMODB_TABLE env) uri
                   (detectedText (TextDetections rekognitionResponse)) contains_word),
             ConsoleLog (Maximum_of_10_tags_skipping uri),
             Send (DeleteMessageCommand (queueUrl message) (receiptHandle message))],
            Inr \<lparr>statusCode = 200,
                 response_body = Processing_completed_successfully rekognitionResponse\<rparr>)"
proof -
  from assms(6) have not_marked: "\<not> hasRekognitionTextDetectionTag (existingTags taggingResponse)"
    by (auto simp: hasTag_iff)
  from assms(5,6) have skipped: "tag_as_processed env bucket key uri (existingTags taggingResponse)
      = ([ConsoleLog (Maximum_of_10_tags_skipping uri)], Inr ())"
    by (auto simp: tag_as_processed_cases)
  from process_image_stored [OF assms(7-9) skipped assms(10)]
    try_block_process [OF assms(1-4) not_marked]
  show ?thesis by (simp add: handler_Cons try_catch_def)
qed

text \<open>The run of the example message on an object with ten unrelated tags.\<close>

theorem tag_limit_skips_marker_write_witness:
  "handler (example_environment ten_tags) example_event =
           ([ConsoleLog (Processing_S3_Object ''s3://b/posters/p1.jpg''),
             Send (GetObjectTaggingCommand (JString ''b'') (JString ''posters/p1.jpg'')),
             Send (DetectTextCommand (JString ''b'') (JString ''posters/p1.jpg'') 90),
             ConsoleLog (Rekognition_response \<lparr>TextDetections = example_detections\<rparr>),
             Send (PutItemCommand (Some ''s3-object-image-recognition-mapping'')
                   ''s3://b/posters/p1.jpg'' ''FINDME NOW'' True),
             ConsoleLog (Maximum_of_10_tags_skipping ''s3://b/posters/p1.jpg''),
             Send (DeleteMessageCommand
                   ''https://sqs.us-east-1.amazonaws.com/123456789012/detect-image-attributes''
                   ''receipt-1'')],
            Inr \<lparr>statusCode = 200,
                 response_body = Processing_completed_successfully
                   \<lparr>TextDetections = example_detections\<rparr>\<rparr>)"
proof -
  have r: "receiptHandle example_message = ''receipt-1''"
    by (simp add: example_message_def)
  show ?thesis
    using tag_limit_skips_marker_write [OF example_parse [of ten_tags] example_destructure
        example_s3Uri example_tagging [of ten_tags],
        where rekognitionResponse = "\<lparr>TextDetections = example_detections\<rparr>"
          and contains_word = True and rest = "[]"]
      example_aggregate(1) [of ten_tags] example_aggregate(2) example_queueUrl r
    by (simp add: example_event_def existingTags_def ten_tags_def other_tag_def
        example_environment_def)
qed

section \<open>Whole runs\<close>

text \<open>
  Claim C8. For a message whose body parses to an object with bucket "b" and key
  "posters/p1.jpg", an object without tags, a detection result with the LINE fragment
  "FINDME NOW" and the WORD fragment "findme", and the target word "findme", the run
  sends, in this order, the tag fetch, the detection, the record with identity
  "s3://b/posters/p1.jpg", text "FINDME NOW" and contains-word true, the tag write with
  the single entry (rekognition_text_detection, "true"), and the delete call; it returns
  the response with status 200.
\<close>

theorem scenario_1:
  assumes "JSON_parse env (body message) = Inr (JObject props)"
    and "map_of props ''bucket'' = Some (JString ''b'')"
    and "map_of props ''key'' = Some (JString ''posters/p1.jpg'')"
    and "s3_GetObjectTagging env (JString ''b'') (JString ''posters/p1.jpg'') = Inr taggingResponse"
    and "existingTags taggingResponse = []"
    and "rekognition_DetectText env (JString ''b'') (JString ''posters/p1.jpg'') 90 =
           Inr \<lparr>TextDetections = [\<lparr>DetectedText = ''FINDME NOW'', Type = ''LINE''\<rparr>,
                                   \<lparr>DetectedText = ''findme'', Type = ''WORD''\<rparr>]\<rparr>"
    and "WORD_TO_DETECT env = Some ''findme''"
    and "dynamodb_PutItem env (DYNAMODB_TABLE env) ''s3://b/posters/p1.jpg'' ''FINDME NOW'' True
           = Inr ()"
    and "s3_PutObjectTagging env (JString ''b'') (JString ''posters/p1.jpg'')
           [\<lparr>Key = ''rekognition_text_detection'', Value = ''true''\<rparr>] = Inr ()"
    and "sqs_DeleteMessage env (queueUrl message) (receiptHandle message) = Inr ()"
  shows "commands (fst (handler env \<lparr>Records = message # rest\<rparr>)) =
           [GetObjectTaggingCommand (JString ''b'') (JString ''posters/p1.jpg''),
            DetectTextCommand (JString ''b'') (JString ''posters/p1.jpg'') 90,
            PutItemCommand (DYNAMODB_TABLE env) ''s3://b/posters/p1.jpg'' ''FINDME NOW'' True,
            PutObjectTaggingCommand (JString ''b'') (JString ''posters/p1.jpg'')
              [\<lparr>Key = ''rekognition_text_detection'', Value = ''true''\<rparr>],
            DeleteMessageCommand (queueUrl message) (receiptHandle message)]
       \<and> snd (handler env \<lparr>Records = message # rest\<rparr>) =
           Inr \<lparr>statusCode = 200,
                response_body = Processing_completed_successfully
                  \<lparr>TextDetections = [\<lparr>DetectedText = ''FINDME NOW'', Type = ''LINE''\<rparr>,
                                      \<lparr>DetectedText = ''findme'', Type = ''WORD''\<rparr>]\<rparr>\<rparr>"
proof -
  let ?b = "JString ''b''" and ?k = "JString ''posters/p1.jpg''"
  let ?ds = "[\<lparr>DetectedText = ''FINDME NOW'', Type = ''LINE''\<rparr>,
              \<lparr>DetectedText = ''findme'', Type = ''WORD''\<rparr>]"
  from assms(2,3) have destr: "destructure_bucket_key (JObject props) = Inr (?b, ?k)"
    by (simp add: destructure_bucket_key_def)
  have uri: "s3Uri ?b ?k = Inr ''s3://b/posters/p1.jpg''"
    by (simp add: s3Uri_def)
  have flat: "detectedText ?ds = ''FINDME NOW''"
    by (simp add: detectedText_def join_def)
  from assms(7) have word: "wordDetected env (TextDetections \<lparr>TextDetections = ?ds\<rparr>) = Inr True"
    by (simp add: wordDetected_def toLowerCase_def ascii_toLowerCase_def is_ascii_def)
  from assms(5) have not_marked: "\<not> hasRekognitionTextDetectionTag (existingTags taggingResponse)"
    by (simp add: hasTag_iff)
  from assms(9) have tagged: "tag_as_processed env ?b ?k ''s3://b/posters/p1.jpg'' [] =
      ([Send (PutObjectTaggingCommand ?b ?k [\<lparr>Key = ''rekognition_text_detection'', Value = ''true''\<rparr>]),
        ConsoleLog (Tag_added ''s3://b/posters/p1.jpg'')], Inr ())"
    by (simp add: tag_as_processed_cases add_processed_tag_def
        processedByRekognitionTextDetectionTag_def)
  from assms(8) have stored: "dynamodb_PutItem env (DYNAMODB_TABLE env) ''s3://b/posters/p1.jpg''
      (detectedText (TextDetections \<lparr>TextDetections = ?ds\<rparr>)) True = Inr ()"
    by (simp add: flat)
  from process_image_stored [OF assms(6) word stored tagged assms(10)]
    try_block_process [OF assms(1) destr uri assms(4) not_marked]
  show ?thesis
    by (simp add: handler_Cons assms(5) commands_try_catch snd_try_catch commands_simps flat)
qed

text \<open>The same run in the example environment.\<close>

theorem scenario_1_witness:
  "commands (fst (handler (example_environment []) example_event)) =
           [GetObjectTaggingCommand (JString ''b'') (JString ''posters/p1.jpg''),
            DetectTextCommand (JString ''b'') (JString ''posters/p1.jpg'') 90,
            PutItemCommand (Some ''s3-object-image-recognition-mapping'')
              ''s3://b/posters/p1.jpg'' ''FINDME NOW'' True,
            PutObjectTaggingCommand (JString ''b'') (JString ''posters/p1.jpg'')
              [\<lparr>Key = ''rekognition_text_detection'', Value = ''true''\<rparr>],
            DeleteMessageCommand
              ''https://sqs.us-east-1.amazonaws.com/123456789012/detect-image-attributes''
              ''receipt-1'']"
proof -
  have r: "receiptHandle example_message = ''receipt-1''" "body example_message = example_body"
    by (simp_all add: example_message_def)
  show ?thesis
    using scenario_1 [of "example_environment []" example_message
      "[(''bucket'', JString ''b''), (''key'', JString ''posters/p1.jpg'')]"
      "\<lparr>TagSet = Some []\<rparr>" "[]"]
    by (simp add: example_environment_def example_object_def example_event_def
      existingTags_def example_detections_def example_queueUrl r)
qed

text \<open>
  Claim C9. Once the tags are fetched, the run stops after the tag fetch exactly when
  some tag has the name rekognition_text_detection and the value "true", compared as
  strings. Otherwise the detection is sent, and when it answers the record is stored.
  The values "True" and "1" do not count as the marker.
\<close>

theorem skip_iff_marker_true:
  assumes "JSON_parse env (body message) = Inr s3Object"
    and "destructure_bucket_key s3Object = Inr (bucket, key)"
    and "s3Uri bucket key = Inr uri"
    and "s3_GetObjectTagging env bucket key = Inr taggingResponse"
  shows "(commands (fst (handler env \<lparr>Records = message # rest\<rparr>))
            = [GetObjectTaggingCommand bucket key]
          \<longleftrightarrow> (\<exists>tag\<in>set (existingTags taggingResponse).
                 Key tag = ''rekognition_text_detection'' \<and> Value tag = ''true''))
       \<and> (\<not> (\<exists>tag\<in>set (existingTags taggingResponse).
                 Key tag = ''rekognition_text_detection'' \<and> Value tag = ''true'')
          \<longrightarrow> DetectTextCommand bucket key 90
                \<in> set (commands (fst (handler env \<lparr>Records = message # rest\<rparr>))))
       \<and> (\<not> (\<exists>tag\<in>set (existingTags taggingResponse).
                 Key tag = ''rekognition_text_detection'' \<and> Value tag = ''true'')
          \<and> rekognition_DetectText env bucket key 90 = Inr rekognitionResponse
          \<and> wordDetected env (TextDetections rekognitionResponse) = Inr contains_word
          \<longrightarrow> PutItemCommand (DYNAMODB_TABLE env) uri
                  (detectedText (TextDetections rekognitionResponse)) contains_word
                \<in> set (commands (fst (handler env \<lparr>Records = message # rest\<rparr>))))
       \<and> \<not> hasRekognitionTextDetectionTag [\<lparr>Key = ''rekognition_text_detection'', Value = ''True''\<rparr>]
       \<and> \<not> hasRekognitionTextDetectionTag [\<lparr>Key = ''rekognition_text_detection'', Value = ''1''\<rparr>]"
proof (cases "hasRekognitionTextDetectionTag (existingTags taggingResponse)")
  case True
  from try_block_skip [OF assms True] True show ?thesis
    by (simp add: handler_Cons commands_try_catch commands_simps hasTag_iff)
next
  case False
  from try_block_process [OF assms False] False show ?thesis
    by (auto simp: handler_Cons commands_try_catch commands_simps hasTag_iff
        process_image_unfold split: sum.splits prod.splits)
qed

text \<open>
  The example message with the marker "true" (only the tag fetch is sent) and with the
  marker "True" (detection and record write are sent).
\<close>

theorem skip_iff_marker_true_witness:
  "commands (fst (handler (example_environment [processed_tag ''true'']) example_event))
     = [GetObjectTaggingCommand (JString ''b'') (JString ''posters/p1.jpg'')]
   \<and> DetectTextCommand (JString ''b'') (JString ''posters/p1.jpg'') 90
       \<in> set (commands (fst (handler (example_environment [processed_tag ''True''])
             example_event)))
   \<and> PutItemCommand (Some ''s3-object-image-recognition-mapping'') ''s3://b/posters/p1.jpg''
         ''FINDME NOW'' True
       \<in> set (commands (fst (handler (example_environment [processed_tag ''True''])
             example_event)))"
proof -
  have table: "DYNAMODB_TABLE (example_environment tags)
      = Some ''s3-object-image-recognition-mapping''"
    "rekognition_DetectText (example_environment tags) b k 90
      = Inr \<lparr>TextDetections = example_detections\<rparr>" for tags b k
    by (simp_all add: example_environment_def)
  from skip_iff_marker_true [OF example_parse example_destructure example_s3Uri
      example_tagging, of "[processed_tag ''true'']" "[]"]
  have one: "commands (fst (handler (example_environment [processed_tag ''true''])
       example_event))
     = [GetObjectTaggingCommand (JString ''b'') (JString ''posters/p1.jpg'')]"
    by (simp add: example_event_def existingTags_def processed_tag_def)
  from skip_iff_marker_true [OF example_parse [of "[processed_tag ''True'']"]
      example_destructure example_s3Uri example_tagging [of "[processed_tag ''True'']"],
      where rest = "[]"
        and rekognitionResponse = "\<lparr>TextDetections = example_detections\<rparr>"
        and contains_word = True]
    example_aggregate(1) [of "[processed_tag ''True'']"] example_aggregate(2) table
  have two: "DetectTextCommand (JString ''b'') (JString ''posters/p1.jpg'') 90
       \<in> set (commands (fst (handler (example_environment [processed_tag ''True''])
             example_event)))
   \<and> PutItemCommand (Some ''s3-object-image-recognition-mapping'') ''s3://b/posters/p1.jpg''
         ''FINDME NOW'' True
       \<in> set (commands (fst (handler (example_environment [processed_tag ''True''])
             example_event)))"
    by (simp add: example_event_def existingTags_def processed_tag_def)
  from one two show ?thesis by blast
qed

text \<open>
  Claim C10. For an object with fewer than 10 tags, at most one of them named
  rekognition_text_detection, in a run where detection and record write answer: when
  that tag exists with a value other than "true" and "false", the tag write sent appends
  (rekognition_text_detection, "true") to the fetched list, which then has two entries
  of that name. Every tag write of the run keeps at most one entry of that name exactly
  when the fetched value is absent, "false" or "true".
\<close>

theorem other_marker_value_gets_second_entry:
  assumes "JSON_parse env (body message) = Inr s3Object"
    and "destructure_bucket_key s3Object = Inr (bucket, key)"
    and "s3Uri bucket key = Inr uri"
    and "s3_GetObjectTagging env bucket key = Inr taggingResponse"
    and "length (existingTags taggingResponse) < 10"
    and "length (filter (\<lambda>t. Key t = ''rekognition_text_detection'')
           (existingTags taggingResponse)) \<le> 1"
    and "rekognition_DetectText env bucket key 90 = Inr rekognitionResponse"
    and "wordDetected env (TextDetections rekognitionResponse) = Inr contains_word"
    and "dynamodb_PutItem env (DYNAMODB_TABLE env) uri
           (detectedText (TextDetections rekognitionResponse)) contains_word = Inr ()"
  shows "(tag \<in> set (existingTags taggingResponse) \<and> Key tag = ''rekognition_text_detection''
            \<and> Value tag \<noteq> ''true'' \<and> Value tag \<noteq> ''false'' \<longrightarrow>
          PutObjectTaggingCommand bucket key
              (existingTags taggingResponse
                 @ [\<lparr>Key = ''rekognition_text_detection'', Value = ''true''\<rparr>])
            \<in> set (commands (fst (handler env \<lparr>Records = message # rest\<rparr>)))
          \<and> length (filter (\<lambda>t. Key t = ''rekognition_text_detection'')
                (existingTags taggingResponse
                   @ [\<lparr>Key = ''rekognition_text_detection'', Value = ''true''\<rparr>])) = 2)
       \<and> ((\<forall>b k ts. PutObjectTaggingCommand b k ts
                        \<in> set (commands (fst (handler env \<lparr>Records = message # rest\<rparr>)))
                \<longrightarrow> length (filter (\<lambda>t. Key t = ''rekognition_text_detection'') ts) \<le> 1)
           \<longleftrightarrow> (\<forall>tag\<in>set (existingTags taggingResponse).
                  Key tag = ''rekognition_text_detection'' \<longrightarrow>
                  Value tag = ''false'' \<or> Value tag = ''true''))"
proof -
  define tags where "tags = existingTags taggingResponse"
  define run where "run = commands (fst (handler env \<lparr>Records = message # rest\<rparr>))"
  define marker where "marker = (\<lambda>t::tag. Key t = ''rekognition_text_detection'')"
  have appended_eq: "add_processed_tag tags
      = tags @ [\<lparr>Key = ''rekognition_text_detection'', Value = ''true''\<rparr>]"
    by (simp add: add_processed_tag_def processedByRekognitionTextDetectionTag_def)
  have one: "length (filter marker tags) \<le> 1"
    using assms(6) by (simp add: tags_def marker_def)
  have short: "length tags < 10"
    using assms(5) by (simp add: tags_def)
  have skip: "run = [GetObjectTaggingCommand bucket key]"
    if "hasRekognitionTextDetectionTag tags"
    using try_block_skip [OF assms(1-4)] that
    by (simp add: run_def tags_def handler_Cons commands_try_catch commands_simps)
  have sole: "PutObjectTaggingCommand bucket key ts' \<in> set run
      \<and> (\<forall>b k ts. PutObjectTaggingCommand b k ts \<in> set run \<longrightarrow> ts = ts')"
    if "\<not> hasRekognitionTextDetectionTag tags"
      and "commands (fst (tag_as_processed env bucket key uri tags))
             = [PutObjectTaggingCommand bucket key ts']" for ts'
    using appended_in_run [OF assms(1-4) _ assms(7-9),
        where c = "PutObjectTaggingCommand bucket key ts'" and rest = rest]
      that
    unfolding run_def tags_def by blast
  have first: "PutObjectTaggingCommand bucket key (add_processed_tag tags) \<in> set run
      \<and> length (filter marker (add_processed_tag tags)) = 2"
    if tag: "tag \<in> set tags" "marker tag" "Value tag \<noteq> ''true''" "Value tag \<noteq> ''false''"
    for tag
  proof -
    have only: "t = tag" if "t \<in> set tags" "marker t" for t
      using only_marker_entry [of tags tag t] one tag(1,2) that unfolding marker_def by blast
    then have not_marked: "\<not> hasRekognitionTextDetectionTag tags"
      using other_value_not_marked [of tags tag] tag(3) unfolding marker_def by blast
    have "\<not> (\<exists>t\<in>set tags. Key t = ''rekognition_text_detection'' \<and> Value t = ''false'')"
      using only tag(4) unfolding marker_def by blast
    from sole [OF not_marked tag_as_processed_appends [OF this short]]
    have "PutObjectTaggingCommand bucket key (add_processed_tag tags) \<in> set run"
      by blast
    moreover have "length (filter marker (add_processed_tag tags)) = 2"
      using add_processed_tag_second [of tag tags] tag(1,2) one unfolding marker_def by blast
    ultimately show ?thesis by blast
  qed
  have second: "(\<forall>b k ts. PutObjectTaggingCommand b k ts \<in> set run
                   \<longrightarrow> length (filter marker ts) \<le> 1)
           \<longleftrightarrow> (\<forall>tag\<in>set tags. marker tag \<longrightarrow> Value tag = ''false'' \<or> Value tag = ''true'')"
  proof
    assume kept: "\<forall>b k ts. PutObjectTaggingCommand b k ts \<in> set run
                   \<longrightarrow> length (filter marker ts) \<le> 1"
    show "\<forall>tag\<in>set tags. marker tag \<longrightarrow> Value tag = ''false'' \<or> Value tag = ''true''"
    proof (intro ballI impI, rule ccontr)
      fix tag assume "tag \<in> set tags" "marker tag"
        "\<not> (Value tag = ''false'' \<or> Value tag = ''true'')"
      with first [of tag]
      have "PutObjectTaggingCommand bucket key (add_processed_tag tags) \<in> set run"
        and two: "length (filter marker (add_processed_tag tags)) = 2"
        by blast+
      with kept have "length (filter marker (add_processed_tag tags)) \<le> 1" by blast
      with two show False by simp
    qed
  next
    assume ok: "\<forall>tag\<in>set tags. marker tag \<longrightarrow> Value tag = ''false'' \<or> Value tag = ''true''"
    show "\<forall>b k ts. PutObjectTaggingCommand b k ts \<in> set run
                   \<longrightarrow> length (filter marker ts) \<le> 1"
    proof (cases "hasRekognitionTextDetectionTag tags")
      case True
      from skip [OF this] show ?thesis by simp
    next
      case False
      with ok have no_true: "\<forall>tag\<in>set tags. marker tag \<longrightarrow> Value tag = ''false''"
        unfolding hasTag_iff marker_def by blast
      show ?thesis
      proof (cases "\<exists>t\<in>set tags. marker t")
        case True
        with no_true
        have "\<exists>t\<in>set tags. Key t = ''rekognition_text_detection'' \<and> Value t = ''false''"
          unfolding marker_def by blast
        from sole [OF False tag_as_processed_rewrites [OF this]]
        have "\<forall>b k ts. PutObjectTaggingCommand b k ts \<in> set run
                \<longrightarrow> ts = update_tag_value tags" by blast
        moreover have "length (filter marker (update_tag_value tags)) \<le> 1"
          using one unfolding marker_def by (simp add: update_tag_value_markers)
        ultimately show ?thesis by blast
      next
        case none: False
        then have "\<not> (\<exists>t\<in>set tags. Key t = ''rekognition_text_detection'' \<and> Value t = ''false'')"
          unfolding marker_def by blast
        from sole [OF False tag_as_processed_appends [OF this short]]
        have "\<forall>b k ts. PutObjectTaggingCommand b k ts \<in> set run
                \<longrightarrow> ts = add_processed_tag tags" by blast
        moreover from none have "filter marker tags = []"
          unfolding filter_empty_conv by blast
        then have "length (filter marker (add_processed_tag tags)) \<le> 1"
          by (simp add: appended_eq)
        ultimately show ?thesis by blast
      qed
    qed
  qed
  from first [of tag] second show ?thesis
    unfolding appended_eq unfolding tags_def run_def marker_def by blast
qed

text \<open>
  The example message on an object whose only tag is the marker with value "True".
\<close>

theorem other_marker_value_gets_second_entry_witness:
  "PutObjectTaggingCommand (JString ''b'') (JString ''posters/p1.jpg'')
       [processed_tag ''True'', processed_tag ''true'']
     \<in> set (commands (fst (handler (example_environment [processed_tag ''True''])
           example_event)))
   \<and> length (filter (\<lambda>t. Key t = ''rekognition_text_detection'')
         [processed_tag ''True'', processed_tag ''true'']) = 2"
proof -
  let ?env = "example_environment [processed_tag ''True'']"
  have services: "rekognition_DetectText ?env (JString ''b'') (JString ''posters/p1.jpg'') 90
      = Inr \<lparr>TextDetections = example_detections\<rparr>"
    "dynamodb_PutItem ?env (DYNAMODB_TABLE ?env) ''s3://b/posters/p1.jpg''
      (detectedText (TextDetections \<lparr>TextDetections = example_detections\<rparr>)) True = Inr ()"
    by (simp_all add: example_environment_def)
  have word: "wordDetected ?env (TextDetections \<lparr>TextDetections = example_detections\<rparr>)
      = Inr True"
    using example_aggregate(1) [of "[processed_tag ''True'']"] by simp
  have few: "length (existingTags \<lparr>TagSet = Some [processed_tag ''True'']\<rparr>) < 10"
    "length (filter (\<lambda>t. Key t = ''rekognition_text_detection'')
       (existingTags \<lparr>TagSet = Some [processed_tag ''True'']\<rparr>)) \<le> 1"
    by (simp_all add: existingTags_def processed_tag_def)
  from other_marker_value_gets_second_entry [OF example_parse example_destructure
      example_s3Uri example_tagging few services(1) word services(2),
      of "processed_tag ''True''" "[]"]
  show ?thesis
    by (simp add: example_event_def existingTags_def processed_tag_def)
qed

end
